theory Spec2Isabelle
  imports Complex_Main "HOL-Library.Word"
begin

section \<open>Audio sandbox: data model\<close>

text \<open>
  The C++ type \<open>float\<close> is modelled by \<open>real\<close>: arithmetic is exact, and there is
  no NaN and no infinity. \<open>int32\<close> values are \<open>int\<close>, with the 32-bit wrap-around
  written out where the code multiplies; \<open>uint32\<close> is \<open>32 word\<close>. A \<open>TArray\<close> is a
  list.
\<close>

subsection \<open>PhysicsCore.h\<close>

record FVector3 =
  X :: real
  Y :: real
  Z :: real

text \<open>\<open>FVector3(InX = 0, InY = 0, InZ = 0)\<close>\<close>

definition FVector3_new :: "real \<Rightarrow> real \<Rightarrow> real \<Rightarrow> FVector3" where
  "FVector3_new InX InY InZ = \<lparr>X = InX, Y = InY, Z = InZ\<rparr>"

text \<open>
  \<open>FPhysicsObject\<close> and \<open>FPhysicsSphere\<close>, the only subclass. Objects are held through
  shared pointers by the physics world, the audio integration and the sandboxes, so they
  live in a store, addressed by \<open>addr\<close>.
\<close>

record FPhysicsObject =
  Position :: FVector3
  Velocity :: FVector3
  Acceleration :: FVector3
  TotalForce :: FVector3
  Mass :: real
  Damping :: real

record FPhysicsSphere = FPhysicsObject +
  Radius :: real

type_synonym addr = nat

type_synonym heap = "addr \<rightharpoonup> FPhysicsSphere"

record FPhysicsWorld =
  PhysicsObjects :: "addr list"
  Gravity :: FVector3

text \<open>\<open>void SetGravity(const FVector3& NewGravity) { Gravity = NewGravity; }\<close>\<close>

definition SetGravity :: "FVector3 \<Rightarrow> FPhysicsWorld \<Rightarrow> FPhysicsWorld" where
  "SetGravity NewGravity w = w\<lparr>Gravity := NewGravity\<rparr>"

record FImpactEvent =
  Position :: FVector3
  ImpactNormal :: FVector3
  ImpactForce :: real
  ImpactFrequency :: real
  Duration :: real
  ObjectID :: "32 word"

text \<open>The default constructor \<open>FImpactEvent()\<close>.\<close>

definition FImpactEvent_new :: FImpactEvent where
  "FImpactEvent_new =
     \<lparr>Position = FVector3_new 0 0 0, ImpactNormal = FVector3_new 0 0 0,
      ImpactForce = 0, ImpactFrequency = 200, Duration = 1 / 2, ObjectID = 0\<rparr>"

subsection \<open>AudioPhysicsIntegration.h: the impact event queue\<close>

record FImpactEventQueue =
  ImpactQueue :: "FImpactEvent list"
  MaxSize :: int

definition GetQueueSize :: "FImpactEventQueue \<Rightarrow> int" where
  "GetQueueSize q = int (length (ImpactQueue q))"

definition HasEvents :: "FImpactEventQueue \<Rightarrow> bool" where
  "HasEvents q = (GetQueueSize q > 0)"

text \<open>
  Modelled from the spec: the constructor \<open>FImpactEventQueue(int32 MaxQueueSize = 256)\<close>,
  whose body (AudioPhysicsIntegration.cpp) is not among the sources. The spec: a bounded
  ordered sequence of events, "capacity fixed at construction"; a new queue is empty.
\<close>

definition FImpactEventQueue_new :: "int \<Rightarrow> FImpactEventQueue" where
  "FImpactEventQueue_new MaxQueueSize = \<lparr>ImpactQueue = [], MaxSize = MaxQueueSize\<rparr>"

text \<open>
  Modelled from the spec: \<open>FImpactEventQueue::QueueImpact\<close>, declared in
  AudioPhysicsIntegration.h, body absent. The spec: "if size < C, append; if size == C,
  the event is dropped (overflow policy: newest-dropped, never silently overwrite or
  block)". The second branch is the \<open>else\<close>.
\<close>

definition QueueImpact :: "FImpactEvent \<Rightarrow> FImpactEventQueue \<Rightarrow> FImpactEventQueue" where
  "QueueImpact Impact q =
     (if GetQueueSize q < MaxSize q
      then q\<lparr>ImpactQueue := ImpactQueue q @ [Impact]\<rparr>
      else q)"

text \<open>
  Modelled from the spec: \<open>FImpactEventQueue::DequeueImpact\<close>, declared in
  AudioPhysicsIntegration.h, body absent. The spec: "removes and returns the oldest event,
  signaling "empty" (no value) rather than failing when none remain". The \<open>bool\<close>
  result and the out-parameter of the declaration are one \<open>option\<close>: \<open>None\<close> is
  \<open>false\<close> with \<open>OutImpact\<close> untouched.
\<close>

definition DequeueImpact :: "FImpactEventQueue \<Rightarrow> FImpactEvent option \<times> FImpactEventQueue" where
  "DequeueImpact q =
     (case ImpactQueue q of
        [] \<Rightarrow> (None, q)
      | e # es \<Rightarrow> (Some e, q\<lparr>ImpactQueue := es\<rparr>))"

text \<open>A sequence of calls on one queue, by its single producer and single consumer.\<close>

datatype queue_call = CallQueueImpact FImpactEvent | CallDequeueImpact

fun run_calls :: "queue_call list \<Rightarrow> FImpactEventQueue \<Rightarrow> FImpactEventQueue" where
  "run_calls [] q = q"
| "run_calls (CallQueueImpact e # cs) q = run_calls cs (QueueImpact e q)"
| "run_calls (CallDequeueImpact # cs) q = run_calls cs (snd (DequeueImpact q))"

text \<open>What the \<open>DequeueImpact\<close> calls of a sequence return, in call order.\<close>

fun dequeued :: "queue_call list \<Rightarrow> FImpactEventQueue \<Rightarrow> FImpactEvent option list" where
  "dequeued [] q = []"
| "dequeued (CallQueueImpact e # cs) q = dequeued cs (QueueImpact e q)"
| "dequeued (CallDequeueImpact # cs) q =
     fst (DequeueImpact q) # dequeued cs (snd (DequeueImpact q))"

text \<open>
  The events of a sequence that \<open>QueueImpact\<close> retained (the queue had room when they
  arrived), in call order.
\<close>

fun retained :: "queue_call list \<Rightarrow> FImpactEventQueue \<Rightarrow> FImpactEvent list" where
  "retained [] q = []"
| "retained (CallQueueImpact e # cs) q =
     (if GetQueueSize q < MaxSize q then [e] else []) @ retained cs (QueueImpact e q)"
| "retained (CallDequeueImpact # cs) q = retained cs (snd (DequeueImpact q))"

text \<open>The events among the results of the dequeue calls.\<close>

fun delivered :: "FImpactEvent option list \<Rightarrow> FImpactEvent list" where
  "delivered [] = []"
| "delivered (None # rs) = delivered rs"
| "delivered (Some e # rs) = e # delivered rs"

subsection \<open>The engine's containers and arithmetic\<close>

datatype error = InvalidArrayNum | IndexOutOfBounds | NullDereference

text \<open>
  \<open>int32\<close> arithmetic: the result of an operation on \<open>int\<close>, wrapped into
  \<open>[-2^31, 2^31)\<close>.
\<close>

definition int32 :: "int \<Rightarrow> int" where
  "int32 x = (x + 2147483648) mod 4294967296 - 2147483648"

text \<open>
  Modelled from the spec: \<open>TArray<float>::SetNum\<close> of the engine (CoreMinimal.h is not
  among the sources). The spec: a SampleBuffer is an "ordered sequence of floating-point
  samples, interleaved stereo, length = 2*NumSamples". The array is cut or extended to the
  new length, new samples being 0; a negative length is an error.
\<close>

definition SetNum :: "int \<Rightarrow> real list \<Rightarrow> error + real list" where
  "SetNum NewNum xs =
     (if NewNum < 0 then Inl InvalidArrayNum
      else Inr (take (nat NewNum) xs @ replicate (nat NewNum - length xs) 0))"

text \<open>
  Modelled from the spec: \<open>FMath::Clamp\<close> of the engine (CoreMinimal.h is not among the
  sources). The spec: "hard-clip the summed signal to [-1,1]".
\<close>

definition Clamp :: "real \<Rightarrow> real \<Rightarrow> real \<Rightarrow> real" where
  "Clamp x lo hi = (if x < lo then lo else if x < hi then x else hi)"

subsection \<open>AudioSynthesizer.h\<close>

datatype EWaveform = Sine | Square | Sawtooth | Triangle | Noise

subsection \<open>SandboxManager.h, SandboxManager.cpp\<close>

text \<open>
  The manager's members. The audio integration \<open>'a\<close> (\<open>FAudioPhysicsSandbox\<close>) and the
  procedural controller \<open>'c\<close> (\<open>FProceduralController\<close>) are used by the manager only
  through their member functions.
\<close>

record ('a, 'c) FSandboxManager =
  PhysicsWorld :: FPhysicsWorld
  AudioPhysicsIntegration :: 'a
  ProceduralController :: 'c
  SampleRate :: real
  BufferSize :: int
  SimulationSpeed :: real
  bUseProceduralGeneration :: bool
  bUsePhysicsAudio :: bool
  bUseResonanceSynthesis :: bool
  bInitialized :: bool
  LastFrameTime :: real
  FrameTimeHistory :: "real list"

text \<open>
  The member functions that SandboxManager.cpp calls and whose bodies are not among the
  sources (PhysicsCore.cpp, AudioPhysicsIntegration.cpp, ProceduralGeneration.cpp,
  AudioSynthesizer.cpp) are parameters of the model. \<open>'o\<close> is the oscillator
  (\<open>FOscillator\<close>). Each takes the object it is called on last and returns it updated;
  functions that receive the physics world or a physics object may change the store.
  \<^item> \<open>PhysicsWorld_new\<close>: \<open>FPhysicsWorld()\<close>
  \<^item> \<open>PhysicsWorld_SimulateStep DeltaTime\<close>: \<open>FPhysicsWorld::SimulateStep\<close>
  \<^item> \<open>AudioPhysics_new InSampleRate\<close>: \<open>FAudioPhysicsSandbox(InSampleRate)\<close>
  \<^item> \<open>AudioPhysics_Update world DeltaTime OutAudioBuffer NumSamples\<close>:
    \<open>FAudioPhysicsSandbox::Update\<close>
  \<^item> \<open>Controller_new\<close>, \<open>Controller_SetFrequencyRange\<close>, \<open>Controller_SetAmplitudeRange\<close>,
    \<open>Controller_SetDurationRange\<close>, \<open>Controller_GenerateParameters\<close>:
    \<open>FProceduralController\<close>; the parameters come back as
    (frequency, amplitude, spectral richness, duration)
  \<^item> \<open>Oscillator_new\<close>, \<open>Oscillator_SetFrequency\<close>, \<open>Oscillator_SetAmplitude\<close>,
    \<open>Oscillator_SetWaveform\<close>, \<open>Oscillator_GenerateSamples OutBuffer NumSamples\<close>:
    \<open>FOscillator\<close>
  \<^item> \<open>PhysicsObject_ApplyImpulse Impulse\<close>: \<open>FPhysicsObject::ApplyImpulse\<close>
\<close>

record ('a, 'c, 'o) collaborators =
  PhysicsWorld_new :: FPhysicsWorld
  PhysicsWorld_SimulateStep :: "real \<Rightarrow> FPhysicsWorld \<times> heap \<Rightarrow> FPhysicsWorld \<times> heap"
  AudioPhysics_new :: "real \<Rightarrow> 'a"
  AudioPhysics_Update ::
    "FPhysicsWorld \<times> heap \<Rightarrow> real \<Rightarrow> real list \<Rightarrow> int \<Rightarrow> 'a
      \<Rightarrow> real list \<times> (FPhysicsWorld \<times> heap) \<times> 'a"
  Controller_new :: 'c
  Controller_SetFrequencyRange :: "real \<Rightarrow> real \<Rightarrow> 'c \<Rightarrow> 'c"
  Controller_SetAmplitudeRange :: "real \<Rightarrow> real \<Rightarrow> 'c \<Rightarrow> 'c"
  Controller_SetDurationRange :: "real \<Rightarrow> real \<Rightarrow> 'c \<Rightarrow> 'c"
  Controller_GenerateParameters :: "'c \<Rightarrow> (real \<times> real \<times> real \<times> real) \<times> 'c"
  Oscillator_new :: "real \<Rightarrow> 'o"
  Oscillator_SetFrequency :: "real \<Rightarrow> 'o \<Rightarrow> 'o"
  Oscillator_SetAmplitude :: "real \<Rightarrow> 'o \<Rightarrow> 'o"
  Oscillator_SetWaveform :: "EWaveform \<Rightarrow> 'o \<Rightarrow> 'o"
  Oscillator_GenerateSamples :: "real list \<Rightarrow> int \<Rightarrow> 'o \<Rightarrow> real list \<times> 'o"
  PhysicsObject_ApplyImpulse :: "FVector3 \<Rightarrow> FPhysicsSphere \<Rightarrow> FPhysicsSphere"

text \<open>\<open>FSandboxManager::Initialize\<close>\<close>

definition Initialize ::
  "('a, 'c, 'o) collaborators \<Rightarrow> ('a, 'c, 'm) FSandboxManager_scheme
    \<Rightarrow> ('a, 'c, 'm) FSandboxManager_scheme" where
  "Initialize env s =
     (let s = s\<lparr>PhysicsWorld := SetGravity (FVector3_new 0 (- 981 / 100) 0) (PhysicsWorld s)\<rparr>;
          s = s\<lparr>ProceduralController :=
                 Controller_SetFrequencyRange env 100 2000 (ProceduralController s)\<rparr>;
          s = s\<lparr>ProceduralController :=
                 Controller_SetAmplitudeRange env (1 / 10) (8 / 10) (ProceduralController s)\<rparr>;
          s = s\<lparr>ProceduralController :=
                 Controller_SetDurationRange env (1 / 10) 1 (ProceduralController s)\<rparr>
      in s\<lparr>bInitialized := True\<rparr>)"

text \<open>The constructor \<open>FSandboxManager(InSampleRate, InBufferSize)\<close>.\<close>

definition FSandboxManager_new ::
  "('a, 'c, 'o) collaborators \<Rightarrow> real \<Rightarrow> int \<Rightarrow> ('a, 'c) FSandboxManager" where
  "FSandboxManager_new env InSampleRate InBufferSize =
     Initialize env
       \<lparr>PhysicsWorld = PhysicsWorld_new env,
        AudioPhysicsIntegration = AudioPhysics_new env InSampleRate,
        ProceduralController = Controller_new env,
        SampleRate = InSampleRate,
        BufferSize = InBufferSize,
        SimulationSpeed = 1,
        bUseProceduralGeneration = True,
        bUsePhysicsAudio = True,
        bUseResonanceSynthesis = True,
        bInitialized = False,
        LastFrameTime = 0,
        FrameTimeHistory = []\<rparr>"

text \<open>The configuration functions defined in SandboxManager.h.\<close>

definition EnableProceduralGeneration ::
  "bool \<Rightarrow> ('a, 'c, 'm) FSandboxManager_scheme \<Rightarrow> ('a, 'c, 'm) FSandboxManager_scheme" where
  "EnableProceduralGeneration bEnable s = s\<lparr>bUseProceduralGeneration := bEnable\<rparr>"

definition EnablePhysicsAudio ::
  "bool \<Rightarrow> ('a, 'c, 'm) FSandboxManager_scheme \<Rightarrow> ('a, 'c, 'm) FSandboxManager_scheme" where
  "EnablePhysicsAudio bEnable s = s\<lparr>bUsePhysicsAudio := bEnable\<rparr>"

definition EnableResonance ::
  "bool \<Rightarrow> ('a, 'c, 'm) FSandboxManager_scheme \<Rightarrow> ('a, 'c, 'm) FSandboxManager_scheme" where
  "EnableResonance bEnable s = s\<lparr>bUseResonanceSynthesis := bEnable\<rparr>"

text \<open>
  The loop \<open>for (int32 i = 0; i < Buffer.Num(); ++i) Buffer[i] = 0.0f;\<close> of
  \<open>FSandboxManager::Update\<close> (lines 45-48, 70-73 and 84-87), from index \<open>i\<close> on.
\<close>

function zero_loop :: "nat \<Rightarrow> real list \<Rightarrow> real list" where
  "zero_loop i Buffer =
     (if i < length Buffer then zero_loop (Suc i) (Buffer[i := 0]) else Buffer)"
  by pat_completeness auto
termination
  by (relation "measure (\<lambda>(i, Buffer). length Buffer - i)") auto

declare zero_loop.simps [simp del]

text \<open>
  The mixing loop of \<open>FSandboxManager::Update\<close> (lines 92-97), from index \<open>i\<close> on. Reading
  either stream beyond its end is an error.
\<close>

function mix_loop ::
  "nat \<Rightarrow> real list \<Rightarrow> real list \<Rightarrow> real list \<Rightarrow> error + real list" where
  "mix_loop i PhysicsAudioBuffer ProceduralAudioBuffer OutAudioBuffer =
     (if i < length OutAudioBuffer then
        if i < length PhysicsAudioBuffer \<and> i < length ProceduralAudioBuffer then
          let Out1 = OutAudioBuffer
                [i := (PhysicsAudioBuffer ! i * (6 / 10) + ProceduralAudioBuffer ! i * (4 / 10))
                       * (9 / 10)];
              Out2 = Out1[i := Clamp (Out1 ! i) (- 1) 1]
          in mix_loop (Suc i) PhysicsAudioBuffer ProceduralAudioBuffer Out2
        else Inl IndexOutOfBounds
      else Inr OutAudioBuffer)"
  by pat_completeness auto
termination
  by (relation "measure (\<lambda>(i, P, Q, Out). length Out - i)") auto

declare mix_loop.simps [simp del]

text \<open>
  \<open>FSandboxManager::ProcessProceduralAudio\<close>, lines 143-163: the oscillator as it is
  configured from the controller's parameters, and the controller after the call.
\<close>

definition ProceduralVoice ::
  "('a, 'c, 'o) collaborators \<Rightarrow> ('a, 'c, 'm) FSandboxManager_scheme \<Rightarrow> 'o \<times> 'c" where
  "ProceduralVoice env s =
     (let ((Frequency, Amplitude, Richness, Duration'), c) =
            Controller_GenerateParameters env (ProceduralController s);
          Osc = Oscillator_new env (SampleRate s);
          Osc = Oscillator_SetFrequency env Frequency Osc;
          Osc = Oscillator_SetAmplitude env (Amplitude * (3 / 10)) Osc;
          Osc = (if Richness < 33 / 100 then Oscillator_SetWaveform env Sine Osc
                 else if Richness < 66 / 100 then Oscillator_SetWaveform env Triangle Osc
                 else Oscillator_SetWaveform env Sawtooth Osc)
      in (Osc, c))"

text \<open>\<open>FSandboxManager::ProcessProceduralAudio\<close>\<close>

definition ProcessProceduralAudio ::
  "('a, 'c, 'o) collaborators \<Rightarrow> real list \<Rightarrow> ('a, 'c, 'm) FSandboxManager_scheme
    \<Rightarrow> error + real list \<times> ('a, 'c, 'm) FSandboxManager_scheme" where
  "ProcessProceduralAudio env OutBuffer s =
     (case SetNum (int32 (BufferSize s * 2)) OutBuffer of
        Inl e \<Rightarrow> Inl e
      | Inr OutBuffer \<Rightarrow>
          let (Osc, c) = ProceduralVoice env s;
              (OutBuffer, Osc) = Oscillator_GenerateSamples env OutBuffer (BufferSize s) Osc
          in Inr (OutBuffer, s\<lparr>ProceduralController := c\<rparr>))"

text \<open>
  \<open>FSandboxManager::Update\<close>, lines 52-74: the physics step and the physics-driven
  stream. The result is the stream, the manager and the store.
\<close>

definition PhysicsStage ::
  "('a, 'c, 'o) collaborators \<Rightarrow> real \<Rightarrow> ('a, 'c, 'm) FSandboxManager_scheme \<times> heap
    \<Rightarrow> error + real list \<times> ('a, 'c, 'm) FSandboxManager_scheme \<times> heap" where
  "PhysicsStage env DeltaTime st =
     (let (s, h) = st;
          AdjustedDeltaTime = DeltaTime * SimulationSpeed s;
          (w, h) = PhysicsWorld_SimulateStep env AdjustedDeltaTime (PhysicsWorld s, h);
          s = s\<lparr>PhysicsWorld := w\<rparr>
      in if bUsePhysicsAudio s then
           let (PhysicsAudioBuffer, (w, h), a) =
                 AudioPhysics_Update env (PhysicsWorld s, h) AdjustedDeltaTime []
                   (BufferSize s) (AudioPhysicsIntegration s)
           in Inr (PhysicsAudioBuffer, s\<lparr>PhysicsWorld := w, AudioPhysicsIntegration := a\<rparr>, h)
         else
           case SetNum (int32 (BufferSize s * 2)) [] of
             Inl e \<Rightarrow> Inl e
           | Inr PhysicsAudioBuffer \<Rightarrow> Inr (zero_loop 0 PhysicsAudioBuffer, s, h))"

text \<open>\<open>FSandboxManager::Update\<close>, lines 76-88: the procedurally-driven stream.\<close>

definition ProceduralStage ::
  "('a, 'c, 'o) collaborators \<Rightarrow> ('a, 'c, 'm) FSandboxManager_scheme
    \<Rightarrow> error + real list \<times> ('a, 'c, 'm) FSandboxManager_scheme" where
  "ProceduralStage env s =
     (if bUseProceduralGeneration s then ProcessProceduralAudio env [] s
      else
        case SetNum (int32 (BufferSize s * 2)) [] of
          Inl e \<Rightarrow> Inl e
        | Inr ProceduralAudioBuffer \<Rightarrow> Inr (zero_loop 0 ProceduralAudioBuffer, s))"

text \<open>\<open>FSandboxManager::Update\<close>, lines 99-104: the frame time history.\<close>

definition TrackPerformance ::
  "('a, 'c, 'm) FSandboxManager_scheme \<Rightarrow> ('a, 'c, 'm) FSandboxManager_scheme" where
  "TrackPerformance s =
     (let s = s\<lparr>FrameTimeHistory := FrameTimeHistory s @ [LastFrameTime s]\<rparr>
      in if int (length (FrameTimeHistory s)) > 100
         then s\<lparr>FrameTimeHistory := tl (FrameTimeHistory s)\<rparr>
         else s)"

text \<open>
  \<open>FSandboxManager::Update\<close>. \<open>OutAudioBuffer\<close> is the caller's array as it comes in; the
  result is the return value, the array as it goes out, the manager and the store.
\<close>

definition Update ::
  "('a, 'c, 'o) collaborators \<Rightarrow> real \<Rightarrow> real list
    \<Rightarrow> ('a, 'c, 'm) FSandboxManager_scheme \<times> heap
    \<Rightarrow> error + int \<times> real list \<times> ('a, 'c, 'm) FSandboxManager_scheme \<times> heap" where
  "Update env DeltaTime OutAudioBuffer st =
     (if \<not> bInitialized (fst st) then
        case SetNum (int32 (BufferSize (fst st) * 2)) OutAudioBuffer of
          Inl e \<Rightarrow> Inl e
        | Inr OutAudioBuffer \<Rightarrow> Inr (BufferSize (fst st), zero_loop 0 OutAudioBuffer, st)
      else
        case PhysicsStage env DeltaTime st of
          Inl e \<Rightarrow> Inl e
        | Inr (PhysicsAudioBuffer, s, h) \<Rightarrow>
            (case ProceduralStage env s of
               Inl e \<Rightarrow> Inl e
             | Inr (ProceduralAudioBuffer, s) \<Rightarrow>
                 (case SetNum (int32 (BufferSize s * 2)) OutAudioBuffer of
                    Inl e \<Rightarrow> Inl e
                  | Inr OutAudioBuffer \<Rightarrow>
                      (case mix_loop 0 PhysicsAudioBuffer ProceduralAudioBuffer OutAudioBuffer of
                         Inl e \<Rightarrow> Inl e
                       | Inr OutAudioBuffer \<Rightarrow>
                           Inr (BufferSize s, OutAudioBuffer, TrackPerformance s, h)))))"

text \<open>
  Successive frames, as the loops of Examples.cpp run them: one \<open>Update\<close> per time step,
  on the same caller's array. The result lists each frame's return value and array.
\<close>

fun Updates ::
  "('a, 'c, 'o) collaborators \<Rightarrow> real list \<Rightarrow> real list
    \<Rightarrow> ('a, 'c, 'm) FSandboxManager_scheme \<times> heap
    \<Rightarrow> error + (int \<times> real list) list \<times> ('a, 'c, 'm) FSandboxManager_scheme \<times> heap" where
  "Updates env [] OutAudioBuffer st = Inr ([], st)"
| "Updates env (DeltaTime # dts) OutAudioBuffer st =
     (case Update env DeltaTime OutAudioBuffer st of
        Inl e \<Rightarrow> Inl e
      | Inr (n, OutAudioBuffer, st) \<Rightarrow>
          (case Updates env dts OutAudioBuffer st of
             Inl e \<Rightarrow> Inl e
           | Inr (frames, st) \<Rightarrow> Inr ((n, OutAudioBuffer) # frames, st)))"

text \<open>\<open>FResonantSurfaceSandbox\<close>: the manager with its resonators.\<close>

record ('a, 'c) FResonantSurfaceSandbox = "('a, 'c) FSandboxManager" +
  Resonators :: "addr list"

text \<open>
  The constructor \<open>FResonantSurfaceSandbox(InSampleRate)\<close>: a manager with buffer size
  2048 and no resonators.
\<close>

definition FResonantSurfaceSandbox_new ::
  "('a, 'c, 'o) collaborators \<Rightarrow> real \<Rightarrow> ('a, 'c) FResonantSurfaceSandbox" where
  "FResonantSurfaceSandbox_new env InSampleRate =
     FSandboxManager.extend (FSandboxManager_new env InSampleRate 2048)
       (FResonantSurfaceSandbox.fields [])"

text \<open>
  \<open>FResonantSurfaceSandbox::ExciteResonator\<close>. The resonators are shared pointers into
  the store; one that points nowhere cannot be dereferenced.
\<close>

definition ExciteResonator ::
  "('a, 'c, 'o) collaborators \<Rightarrow> int \<Rightarrow> real \<Rightarrow> ('a, 'c) FResonantSurfaceSandbox \<times> heap
    \<Rightarrow> error + ('a, 'c) FResonantSurfaceSandbox \<times> heap" where
  "ExciteResonator env Index Energy st =
     (let (s, h) = st
      in if Index \<ge> 0 \<and> Index < int (length (Resonators s)) then
           case h (Resonators s ! nat Index) of
             None \<Rightarrow> Inl NullDereference
           | Some Resonator \<Rightarrow>
               Inr (s, h(Resonators s ! nat Index \<mapsto>
                      PhysicsObject_ApplyImpulse env (FVector3_new 0 (- Energy * 10) 0) Resonator))
         else Inr (s, h))"

subsection \<open>An instance of the collaborators\<close>

text \<open>
  A small instance on which the manager can be run: the physics step leaves the world as
  it is, the audio integration renders the given stream, the controller returns fixed
  parameters with the given spectral richness, the oscillator is its
  (frequency, amplitude, waveform) and renders its amplitude on every sample, and an
  impulse adds to the velocity in proportion to the inverse mass.
\<close>

definition example_collaborators ::
  "real list \<Rightarrow> real \<Rightarrow> (unit, unit, real \<times> real \<times> EWaveform) collaborators" where
  "example_collaborators PhysicsStream Richness =
     \<lparr>PhysicsWorld_new = \<lparr>PhysicsObjects = [], Gravity = FVector3_new 0 0 0\<rparr>,
      PhysicsWorld_SimulateStep = (\<lambda>DeltaTime wh. wh),
      AudioPhysics_new = (\<lambda>InSampleRate. ()),
      AudioPhysics_Update = (\<lambda>wh DeltaTime OutAudioBuffer NumSamples a. (PhysicsStream, wh, a)),
      Controller_new = (),
      Controller_SetFrequencyRange = (\<lambda>MinHz MaxHz c. c),
      Controller_SetAmplitudeRange = (\<lambda>MinAmp MaxAmp c. c),
      Controller_SetDurationRange = (\<lambda>MinSec MaxSec c. c),
      Controller_GenerateParameters = (\<lambda>c. ((440, 1 / 2, Richness, 1 / 5), c)),
      Oscillator_new = (\<lambda>InSampleRate. (440, 1, Sine)),
      Oscillator_SetFrequency = (\<lambda>InFrequency (f, a, w). (InFrequency, a, w)),
      Oscillator_SetAmplitude = (\<lambda>InAmplitude (f, a, w). (f, InAmplitude, w)),
      Oscillator_SetWaveform = (\<lambda>NewWaveform (f, a, w). (f, a, NewWaveform)),
      Oscillator_GenerateSamples =
        (\<lambda>OutBuffer NumSamples (f, a, w). (map (\<lambda>x. a) OutBuffer, (f, a, w))),
      PhysicsObject_ApplyImpulse =
        (\<lambda>Impulse obj. obj\<lparr>Velocity :=
           FVector3_new (X (Velocity obj) + X Impulse / Mass obj)
                        (Y (Velocity obj) + Y Impulse / Mass obj)
                        (Z (Velocity obj) + Z Impulse / Mass obj)\<rparr>)\<rparr>"

subsection \<open>ProceduralGeneration.h: the procedural controller\<close>

text \<open>
  The controller's members. \<open>'g\<close> is a procedural generator (\<open>FProceduralGenerator\<close>, any
  of its variants); a slot without a generator is \<open>None\<close>.
\<close>

record 'g FProceduralController =
  FrequencyGen :: "'g option"
  AmplitudeGen :: "'g option"
  SpectralGen :: "'g option"
  DurationGen :: "'g option"
  FreqMin :: real
  FreqMax :: real
  AmpMin :: real
  AmpMax :: real
  DurMin :: real
  DurMax :: real

text \<open>
  Modelled from the spec: \<open>FProceduralController::MapRange\<close>, declared in
  ProceduralGeneration.h, body (ProceduralGeneration.cpp) absent. The spec: "linearly maps
  it from [0,1] into its configured [min,max] range".
\<close>

definition MapRange :: "real \<Rightarrow> real \<Rightarrow> real \<Rightarrow> real" where
  "MapRange Value OutMin OutMax = OutMin + Value * (OutMax - OutMin)"

text \<open>
  Modelled from the spec: \<open>FProceduralController::SetFrequencyGenerator\<close> and its three
  siblings, bodies absent. The spec: "four independently-settable Generator slots".
\<close>

definition SetFrequencyGenerator :: "'g \<Rightarrow> 'g FProceduralController \<Rightarrow> 'g FProceduralController" where
  "SetFrequencyGenerator Gen c = c\<lparr>FrequencyGen := Some Gen\<rparr>"

definition SetAmplitudeGenerator :: "'g \<Rightarrow> 'g FProceduralController \<Rightarrow> 'g FProceduralController" where
  "SetAmplitudeGenerator Gen c = c\<lparr>AmplitudeGen := Some Gen\<rparr>"

definition SetSpectralGenerator :: "'g \<Rightarrow> 'g FProceduralController \<Rightarrow> 'g FProceduralController" where
  "SetSpectralGenerator Gen c = c\<lparr>SpectralGen := Some Gen\<rparr>"

definition SetDurationGenerator :: "'g \<Rightarrow> 'g FProceduralController \<Rightarrow> 'g FProceduralController" where
  "SetDurationGenerator Gen c = c\<lparr>DurationGen := Some Gen\<rparr>"

text \<open>
  Modelled from the spec: \<open>FProceduralController::SetFrequencyRange\<close>, body absent. The
  spec: each slot has "a configured target range"; an invalid range (min above max) is
  "corrected by swap or by collapsing to a single valid point; never left inverted". The
  model swaps.
\<close>

definition SetFrequencyRange :: "real \<Rightarrow> real \<Rightarrow> 'g FProceduralController \<Rightarrow> 'g FProceduralController" where
  "SetFrequencyRange MinHz MaxHz c = c\<lparr>FreqMin := min MinHz MaxHz, FreqMax := max MinHz MaxHz\<rparr>"

text \<open>
  Modelled from the spec: what \<open>GenerateParameters\<close> takes from one slot. The spec: "pulls
  one value from each configured slot (a slot with no generator assigned yields a fixed
  default)". \<open>GetNextValue\<close> is the generator's member function, which returns the value
  and leaves the generator in its next state; \<open>Default\<close> is the fixed default, which the
  spec does not give.
\<close>

definition pull_slot :: "('g \<Rightarrow> real \<times> 'g) \<Rightarrow> real \<Rightarrow> 'g option \<Rightarrow> real \<times> 'g option" where
  "pull_slot GetNextValue Default Gen =
     (case Gen of
        None \<Rightarrow> (Default, None)
      | Some g \<Rightarrow> (fst (GetNextValue g), Some (snd (GetNextValue g))))"

text \<open>
  Modelled from the spec: \<open>FProceduralController::GenerateParameters\<close>, declared in
  ProceduralGeneration.h, body absent. The spec: "pulls one value from each configured
  slot, linearly maps it from [0,1] into its configured [min,max] range, and returns the
  resulting ParameterSet" (frequency, amplitude, spectral richness, duration). The
  controller has no range members for the spectral richness, whose range the spec gives as
  [0,1].
\<close>

definition GenerateParameters ::
  "('g \<Rightarrow> real \<times> 'g) \<Rightarrow> real \<Rightarrow> 'g FProceduralController
    \<Rightarrow> (real \<times> real \<times> real \<times> real) \<times> 'g FProceduralController" where
  "GenerateParameters GetNextValue Default c =
     (let (f, fg) = pull_slot GetNextValue Default (FrequencyGen c);
          (a, ag) = pull_slot GetNextValue Default (AmplitudeGen c);
          (r, rg) = pull_slot GetNextValue Default (SpectralGen c);
          (d, dg) = pull_slot GetNextValue Default (DurationGen c)
      in ((MapRange f (FreqMin c) (FreqMax c),
           MapRange a (AmpMin c) (AmpMax c),
           MapRange r 0 1,
           MapRange d (DurMin c) (DurMax c)),
          c\<lparr>FrequencyGen := fg, AmplitudeGen := ag, SpectralGen := rg, DurationGen := dg\<rparr>))"

text \<open>\<open>n\<close> successive calls of \<open>GenerateParameters\<close>, and the parameter sets they return.\<close>

fun GenerateParametersN ::
  "('g \<Rightarrow> real \<times> 'g) \<Rightarrow> real \<Rightarrow> nat \<Rightarrow> 'g FProceduralController
    \<Rightarrow> (real \<times> real \<times> real \<times> real) list \<times> 'g FProceduralController" where
  "GenerateParametersN GetNextValue Default 0 c = ([], c)"
| "GenerateParametersN GetNextValue Default (Suc n) c =
     (let (p, c) = GenerateParameters GetNextValue Default c;
          (ps, c) = GenerateParametersN GetNextValue Default n c
      in (p # ps, c))"

section \<open>The impact event queue\<close>

lemma QueueImpact_size_le:
  "GetQueueSize q \<le> MaxSize q \<Longrightarrow> GetQueueSize (QueueImpact e q) \<le> MaxSize (QueueImpact e q)"
  by (simp add: QueueImpact_def GetQueueSize_def)

lemma DequeueImpact_size_le:
  "GetQueueSize q \<le> MaxSize q \<Longrightarrow>
   GetQueueSize (snd (DequeueImpact q)) \<le> MaxSize (snd (DequeueImpact q))"
  by (auto simp: DequeueImpact_def GetQueueSize_def split: list.splits)

lemma run_calls_size_le:
  "GetQueueSize q \<le> MaxSize q \<Longrightarrow> GetQueueSize (run_calls cs q) \<le> MaxSize (run_calls cs q)"
proof (induction cs q rule: run_calls.induct)
  case (1 q)
  then show ?case by simp
next
  case (2 e cs q)
  then show ?case by (simp add: QueueImpact_size_le)
next
  case (3 cs q)
  then show ?case by (simp add: DequeueImpact_size_le)
qed

lemma MaxSize_QueueImpact: "MaxSize (QueueImpact e q) = MaxSize q"
  by (simp add: QueueImpact_def)

lemma MaxSize_DequeueImpact: "MaxSize (snd (DequeueImpact q)) = MaxSize q"
  by (simp add: DequeueImpact_def split: list.splits)

lemma MaxSize_run_calls: "MaxSize (run_calls cs q) = MaxSize q"
  by (induction cs q rule: run_calls.induct)
     (simp_all add: MaxSize_QueueImpact MaxSize_DequeueImpact)

text \<open>
  C2. On a queue constructed with capacity \<open>C\<close> (\<open>0 \<le> C\<close>), after every sequence of
  \<open>QueueImpact\<close> and \<open>DequeueImpact\<close> calls the size is at most \<open>C\<close>; \<open>QueueImpact\<close>
  appends the event when the size is below the capacity, and when the size equals the
  capacity it drops the incoming event and leaves the queue as it was.
\<close>

theorem queue_size_never_exceeds_capacity:
  assumes "0 \<le> C"
  shows "GetQueueSize (run_calls cs (FImpactEventQueue_new C)) \<le> C
    \<and> (GetQueueSize q < MaxSize q \<longrightarrow>
         QueueImpact e q = q\<lparr>ImpactQueue := ImpactQueue q @ [e]\<rparr>
         \<and> GetQueueSize (QueueImpact e q) = GetQueueSize q + 1)
    \<and> (GetQueueSize q = MaxSize q \<longrightarrow> QueueImpact e q = q)"
proof -
  have "GetQueueSize (FImpactEventQueue_new C) \<le> MaxSize (FImpactEventQueue_new C)"
    using assms by (simp add: FImpactEventQueue_new_def GetQueueSize_def)
  then have "GetQueueSize (run_calls cs (FImpactEventQueue_new C))
      \<le> MaxSize (run_calls cs (FImpactEventQueue_new C))"
    by (rule run_calls_size_le)
  then have "GetQueueSize (run_calls cs (FImpactEventQueue_new C)) \<le> C"
    by (simp add: MaxSize_run_calls FImpactEventQueue_new_def)
  then show ?thesis
    by (simp add: QueueImpact_def GetQueueSize_def)
qed

theorem queue_size_never_exceeds_capacity_witness:
  "(0::int) \<le> 2
   \<and> GetQueueSize (run_calls
         [CallQueueImpact FImpactEvent_new, CallQueueImpact FImpactEvent_new,
          CallQueueImpact FImpactEvent_new, CallDequeueImpact,
          CallQueueImpact FImpactEvent_new, CallQueueImpact FImpactEvent_new]
         (FImpactEventQueue_new 2)) \<le> 2
   \<and> GetQueueSize (FImpactEventQueue_new 1) < MaxSize (FImpactEventQueue_new 1)
   \<and> QueueImpact (FImpactEvent_new\<lparr>ObjectID := 7\<rparr>) (FImpactEventQueue_new 1)
       = \<lparr>ImpactQueue = [FImpactEvent_new\<lparr>ObjectID := 7\<rparr>], MaxSize = 1\<rparr>
   \<and> GetQueueSize \<lparr>ImpactQueue = [FImpactEvent_new\<lparr>ObjectID := 7\<rparr>], MaxSize = 1\<rparr> = 1
   \<and> QueueImpact (FImpactEvent_new\<lparr>ObjectID := 8\<rparr>)
         \<lparr>ImpactQueue = [FImpactEvent_new\<lparr>ObjectID := 7\<rparr>], MaxSize = 1\<rparr>
       = \<lparr>ImpactQueue = [FImpactEvent_new\<lparr>ObjectID := 7\<rparr>], MaxSize = 1\<rparr>"
proof -
  have c: "(0::int) \<le> 2" by simp
  have room: "GetQueueSize (FImpactEventQueue_new 1) < MaxSize (FImpactEventQueue_new 1)"
    by (simp add: GetQueueSize_def FImpactEventQueue_new_def)
  have full: "GetQueueSize \<lparr>ImpactQueue = [FImpactEvent_new\<lparr>ObjectID := 7\<rparr>], MaxSize = 1\<rparr>
      = MaxSize \<lparr>ImpactQueue = [FImpactEvent_new\<lparr>ObjectID := 7\<rparr>], MaxSize = 1\<rparr>"
    by (simp add: GetQueueSize_def)
  note a = queue_size_never_exceeds_capacity [OF c,
      of "[CallQueueImpact FImpactEvent_new, CallQueueImpact FImpactEvent_new,
           CallQueueImpact FImpactEvent_new, CallDequeueImpact,
           CallQueueImpact FImpactEvent_new, CallQueueImpact FImpactEvent_new]"
         "FImpactEventQueue_new 1" "FImpactEvent_new\<lparr>ObjectID := 7\<rparr>"]
  note b = queue_size_never_exceeds_capacity [OF c, of "[]"
      "\<lparr>ImpactQueue = [FImpactEvent_new\<lparr>ObjectID := 7\<rparr>], MaxSize = 1\<rparr>"
      "FImpactEvent_new\<lparr>ObjectID := 8\<rparr>"]
  from a room have 1: "QueueImpact (FImpactEvent_new\<lparr>ObjectID := 7\<rparr>) (FImpactEventQueue_new 1)
       = \<lparr>ImpactQueue = [FImpactEvent_new\<lparr>ObjectID := 7\<rparr>], MaxSize = 1\<rparr>"
    by (simp add: FImpactEventQueue_new_def)
  from b full have 2: "QueueImpact (FImpactEvent_new\<lparr>ObjectID := 8\<rparr>)
         \<lparr>ImpactQueue = [FImpactEvent_new\<lparr>ObjectID := 7\<rparr>], MaxSize = 1\<rparr>
       = \<lparr>ImpactQueue = [FImpactEvent_new\<lparr>ObjectID := 7\<rparr>], MaxSize = 1\<rparr>"
    by blast
  from a have 3: "GetQueueSize (run_calls
         [CallQueueImpact FImpactEvent_new, CallQueueImpact FImpactEvent_new,
          CallQueueImpact FImpactEvent_new, CallDequeueImpact,
          CallQueueImpact FImpactEvent_new, CallQueueImpact FImpactEvent_new]
         (FImpactEventQueue_new 2)) \<le> 2"
    by blast
  from c room 1 2 3 full show ?thesis by simp
qed

subsection \<open>First in, first out\<close>

lemma DequeueImpact_Nil: "ImpactQueue q = [] \<Longrightarrow> DequeueImpact q = (None, q)"
  by (simp add: DequeueImpact_def)

lemma DequeueImpact_Cons:
  "ImpactQueue q \<noteq> [] \<Longrightarrow>
   DequeueImpact q = (Some (hd (ImpactQueue q)), q\<lparr>ImpactQueue := tl (ImpactQueue q)\<rparr>)"
  by (cases "ImpactQueue q") (simp_all add: DequeueImpact_def)

lemma run_dequeue_empty:
  "ImpactQueue q = [] \<Longrightarrow> run_calls (replicate n CallDequeueImpact) q = q"
  by (induction n) (simp_all add: DequeueImpact_Nil)

lemma dequeued_empty:
  "ImpactQueue q = [] \<Longrightarrow> dequeued (replicate n CallDequeueImpact) q = replicate n None"
  by (induction n) (simp_all add: DequeueImpact_Nil)

lemma fifo_trace:
  "ImpactQueue q @ retained cs q = delivered (dequeued cs q) @ ImpactQueue (run_calls cs q)"
proof (induction cs q rule: run_calls.induct)
  case (1 q)
  show ?case by simp
next
  case (2 e cs q)
  have "ImpactQueue q @ (if GetQueueSize q < MaxSize q then [e] else [])
      = ImpactQueue (QueueImpact e q)"
    by (simp add: QueueImpact_def)
  with 2 show ?case by (simp del: append_assoc add: append_assoc [symmetric])
next
  case (3 cs q)
  show ?case
  proof (cases "ImpactQueue q")
    case Nil
    with 3 show ?thesis by (simp add: DequeueImpact_def)
  next
    case (Cons x xs)
    with 3 show ?thesis by (simp add: DequeueImpact_def)
  qed
qed

lemma run_enqueue_all:
  "ImpactQueue (run_calls (map CallQueueImpact es) q)
   = ImpactQueue q @ take (nat (MaxSize q) - length (ImpactQueue q)) es"
proof (induction es arbitrary: q)
  case Nil
  show ?case by simp
next
  case (Cons e es)
  show ?case
  proof (cases "GetQueueSize q < MaxSize q")
    case True
    then have "nat (MaxSize q) - length (ImpactQueue q)
        = Suc (nat (MaxSize q) - Suc (length (ImpactQueue q)))"
      by (simp add: GetQueueSize_def)
    with True Cons [of "QueueImpact e q"] show ?thesis
      by (simp add: QueueImpact_def)
  next
    case False
    then have "nat (MaxSize q) - length (ImpactQueue q) = 0"
      by (simp add: GetQueueSize_def)
    with False Cons [of "QueueImpact e q"] show ?thesis
      by (simp add: QueueImpact_def)
  qed
qed

lemma dequeued_after_enqueues:
  "dequeued (map CallQueueImpact es @ cs) q
   = dequeued cs (run_calls (map CallQueueImpact es) q)"
  by (induction es arbitrary: q) simp_all

lemma delivered_replicate_None: "delivered (replicate n None) = []"
  by (induction n) simp_all

lemma delivered_drain:
  "delivered (dequeued (replicate n CallDequeueImpact) q) = take n (ImpactQueue q)"
proof (induction n arbitrary: q)
  case 0
  show ?case by simp
next
  case (Suc n)
  show ?case
  proof (cases "ImpactQueue q")
    case Nil
    then show ?thesis
      by (simp add: dequeued_empty delivered_replicate_None del: replicate.simps)
  next
    case (Cons x xs)
    with Suc [of "q\<lparr>ImpactQueue := xs\<rparr>"] show ?thesis
      by (simp add: DequeueImpact_def)
  qed
qed

text \<open>
  C3. \<open>DequeueImpact\<close> on a queue that holds events removes and returns the oldest one;
  on an empty queue it returns no event and leaves the queue as it is, however often it is
  called. Over every sequence of calls the events come out in the order in which they were
  retained: the initial contents followed by the retained events are the delivered events
  followed by the final contents. Enqueuing the events \<open>es\<close> into a new queue of capacity
  \<open>C\<close> and dequeuing \<open>length es\<close> times delivers the first \<open>C\<close> of them, in order.
\<close>

theorem dequeue_oldest_first_and_empty_signalled:
  "(ImpactQueue q \<noteq> [] \<longrightarrow>
      DequeueImpact q = (Some (hd (ImpactQueue q)), q\<lparr>ImpactQueue := tl (ImpactQueue q)\<rparr>))
   \<and> (ImpactQueue q = [] \<longrightarrow>
      DequeueImpact q = (None, q)
      \<and> run_calls (replicate n CallDequeueImpact) q = q
      \<and> dequeued (replicate n CallDequeueImpact) q = replicate n None)
   \<and> ImpactQueue q @ retained cs q = delivered (dequeued cs q) @ ImpactQueue (run_calls cs q)
   \<and> (0 \<le> C \<longrightarrow>
      delivered (dequeued (map CallQueueImpact es @ replicate (length es) CallDequeueImpact)
        (FImpactEventQueue_new C)) = take (nat C) es)"
proof -
  have "delivered (dequeued (map CallQueueImpact es @ replicate (length es) CallDequeueImpact)
        (FImpactEventQueue_new C)) = take (length es) (take (nat C) es)"
    by (simp add: dequeued_after_enqueues delivered_drain run_enqueue_all
        FImpactEventQueue_new_def)
  also have "\<dots> = take (nat C) es"
    by (simp add: min_def)
  finally show ?thesis
    by (simp add: DequeueImpact_Nil DequeueImpact_Cons run_dequeue_empty dequeued_empty
        fifo_trace)
qed

theorem dequeue_oldest_first_and_empty_signalled_witness:
  "ImpactQueue (FImpactEventQueue_new 2) = []
   \<and> DequeueImpact (FImpactEventQueue_new 2) = (None, FImpactEventQueue_new 2)
   \<and> dequeued (replicate 3 CallDequeueImpact) (FImpactEventQueue_new 2) = [None, None, None]
   \<and> (0::int) \<le> 2
   \<and> delivered (dequeued
         [CallQueueImpact (FImpactEvent_new\<lparr>ObjectID := 1\<rparr>),
          CallQueueImpact (FImpactEvent_new\<lparr>ObjectID := 2\<rparr>),
          CallQueueImpact (FImpactEvent_new\<lparr>ObjectID := 3\<rparr>),
          CallDequeueImpact, CallDequeueImpact, CallDequeueImpact]
         (FImpactEventQueue_new 2))
       = [FImpactEvent_new\<lparr>ObjectID := 1\<rparr>, FImpactEvent_new\<lparr>ObjectID := 2\<rparr>]
   \<and> ImpactQueue \<lparr>ImpactQueue = [FImpactEvent_new\<lparr>ObjectID := 1\<rparr>,
         FImpactEvent_new\<lparr>ObjectID := 2\<rparr>], MaxSize = 2\<rparr> \<noteq> []
   \<and> DequeueImpact \<lparr>ImpactQueue = [FImpactEvent_new\<lparr>ObjectID := 1\<rparr>,
         FImpactEvent_new\<lparr>ObjectID := 2\<rparr>], MaxSize = 2\<rparr>
       = (Some (FImpactEvent_new\<lparr>ObjectID := 1\<rparr>),
          \<lparr>ImpactQueue = [FImpactEvent_new\<lparr>ObjectID := 2\<rparr>], MaxSize = 2\<rparr>)"
proof -
  note a = dequeue_oldest_first_and_empty_signalled [of "FImpactEventQueue_new 2" 3 "[]" 2
      "[FImpactEvent_new\<lparr>ObjectID := 1\<rparr>, FImpactEvent_new\<lparr>ObjectID := 2\<rparr>,
        FImpactEvent_new\<lparr>ObjectID := 3\<rparr>]"]
  note b = dequeue_oldest_first_and_empty_signalled [of
      "\<lparr>ImpactQueue = [FImpactEvent_new\<lparr>ObjectID := 1\<rparr>,
         FImpactEvent_new\<lparr>ObjectID := 2\<rparr>], MaxSize = 2\<rparr>" 0 "[]" 0 "[]"]
  have e: "ImpactQueue (FImpactEventQueue_new 2) = []"
    by (simp add: FImpactEventQueue_new_def)
  from a e have 1: "DequeueImpact (FImpactEventQueue_new 2) = (None, FImpactEventQueue_new 2)"
    and 2: "dequeued (replicate 3 CallDequeueImpact) (FImpactEventQueue_new 2)
      = [None, None, None]"
    by (simp_all add: eval_nat_numeral)
  from a have 3: "delivered (dequeued
         [CallQueueImpact (FImpactEvent_new\<lparr>ObjectID := 1\<rparr>),
          CallQueueImpact (FImpactEvent_new\<lparr>ObjectID := 2\<rparr>),
          CallQueueImpact (FImpactEvent_new\<lparr>ObjectID := 3\<rparr>),
          CallDequeueImpact, CallDequeueImpact, CallDequeueImpact]
         (FImpactEventQueue_new 2))
       = [FImpactEvent_new\<lparr>ObjectID := 1\<rparr>, FImpactEvent_new\<lparr>ObjectID := 2\<rparr>]"
    by (simp add: eval_nat_numeral)
  from b have 4: "DequeueImpact \<lparr>ImpactQueue = [FImpactEvent_new\<lparr>ObjectID := 1\<rparr>,
         FImpactEvent_new\<lparr>ObjectID := 2\<rparr>], MaxSize = 2\<rparr>
       = (Some (FImpactEvent_new\<lparr>ObjectID := 1\<rparr>),
          \<lparr>ImpactQueue = [FImpactEvent_new\<lparr>ObjectID := 2\<rparr>], MaxSize = 2\<rparr>)"
    by simp
  from e 1 2 3 4 show ?thesis by simp
qed

section \<open>The sandbox manager\<close>

subsection \<open>Arrays and loops\<close>

lemma zero_loop_eq: "zero_loop i Buffer = take i Buffer @ replicate (length Buffer - i) 0"
proof (induction i Buffer rule: zero_loop.induct)
  case (1 i Buffer)
  show ?case
  proof (cases "i < length Buffer")
    case True
    have a: "take (Suc i) (Buffer[i := 0]) = take i Buffer @ [0]"
      using True by (simp add: take_Suc_conv_app_nth)
    have b: "replicate (length Buffer - i) (0::real) = 0 # replicate (length Buffer - Suc i) 0"
      using True by (simp add: Suc_diff_Suc flip: replicate_Suc)
    have "zero_loop i Buffer = zero_loop (Suc i) (Buffer[i := 0])"
      using True by (simp add: zero_loop.simps [of i Buffer])
    also have "\<dots> = take (Suc i) (Buffer[i := 0]) @ replicate (length Buffer - Suc i) 0"
      using 1 [OF True] by simp
    finally show ?thesis by (simp add: a b)
  next
    case False
    then show ?thesis by (simp add: zero_loop.simps [of i Buffer])
  qed
qed

lemma zero_loop_0: "zero_loop 0 Buffer = replicate (length Buffer) 0"
  by (simp add: zero_loop_eq)

lemma SetNum_Inr: "0 \<le> n \<Longrightarrow> \<exists>ys. SetNum n xs = Inr ys \<and> length ys = nat n"
  by (auto simp: SetNum_def)

lemma SetNum_length: "SetNum n xs = Inr ys \<Longrightarrow> length ys = nat n \<and> 0 \<le> n"
  by (auto simp: SetNum_def split: if_splits)

lemma SetNum_Nil: "0 \<le> n \<Longrightarrow> SetNum n [] = Inr (replicate (nat n) 0)"
  by (simp add: SetNum_def)

lemma int32_id: "- 2147483648 \<le> x \<Longrightarrow> x < 2147483648 \<Longrightarrow> int32 x = x"
  by (simp add: int32_def)

lemma Clamp_bounds: "lo \<le> hi \<Longrightarrow> lo \<le> Clamp x lo hi \<and> Clamp x lo hi \<le> hi"
  by (simp add: Clamp_def)

lemma mix_loop_Inr:
  "mix_loop i P Q Out = Inr Out' \<Longrightarrow>
   length Out' = length Out \<and>
   (\<forall>j < length Out.
      (j < i \<longrightarrow> Out' ! j = Out ! j) \<and>
      (i \<le> j \<longrightarrow> j < length P \<and> j < length Q \<and>
         Out' ! j = Clamp ((P ! j * (6 / 10) + Q ! j * (4 / 10)) * (9 / 10)) (- 1) 1))"
proof (induction i P Q Out rule: mix_loop.induct)
  case (1 i P Q Out)
  show ?case
  proof (cases "i < length Out")
    case False
    with "1.prems" show ?thesis by (simp add: mix_loop.simps [of i P Q Out])
  next
    case True
    show ?thesis
    proof (cases "i < length P \<and> i < length Q")
      case False
      with True "1.prems" show ?thesis by (simp add: mix_loop.simps [of i P Q Out])
    next
      case inb: True
      define v where "v = Clamp ((P ! i * (6 / 10) + Q ! i * (4 / 10)) * (9 / 10)) (- 1) 1"
      have step: "mix_loop i P Q Out = mix_loop (Suc i) P Q (Out[i := v])"
        using True inb by (simp add: mix_loop.simps [of i P Q Out] Let_def v_def)
      with "1.prems" have r: "mix_loop (Suc i) P Q (Out[i := v]) = Inr Out'" by simp
      have ih: "length Out' = length (Out[i := v]) \<and>
        (\<forall>j < length (Out[i := v]).
          (j < Suc i \<longrightarrow> Out' ! j = Out[i := v] ! j) \<and>
          (Suc i \<le> j \<longrightarrow> j < length P \<and> j < length Q \<and>
             Out' ! j = Clamp ((P ! j * (6 / 10) + Q ! j * (4 / 10)) * (9 / 10)) (- 1) 1))"
        using "1.IH" [OF True inb refl refl] r True by (simp add: v_def)
      show ?thesis
      proof (intro conjI allI impI)
        show "length Out' = length Out" using ih by simp
      next
        fix j assume "j < length Out" "j < i"
        then show "Out' ! j = Out ! j" using ih by simp
      next
        fix j assume j: "j < length Out" "i \<le> j"
        show "j < length P"
          using ih j inb by (cases "j = i") simp_all
        show "j < length Q"
          using ih j inb by (cases "j = i") simp_all
        show "Out' ! j = Clamp ((P ! j * (6 / 10) + Q ! j * (4 / 10)) * (9 / 10)) (- 1) 1"
        proof (cases "j = i")
          case True
          with ih j show ?thesis by (simp add: v_def)
        next
          case False
          with ih j show ?thesis by simp
        qed
      qed
    qed
  qed
qed

lemma mix_loop_returns:
  "length Out \<le> length P \<Longrightarrow> length Out \<le> length Q \<Longrightarrow> \<exists>Out'. mix_loop i P Q Out = Inr Out'"
proof (induction i P Q Out rule: mix_loop.induct)
  case (1 i P Q Out)
  show ?case
  proof (cases "i < length Out")
    case False
    then show ?thesis by (simp add: mix_loop.simps [of i P Q Out])
  next
    case True
    with "1.prems" have inb: "i < length P \<and> i < length Q" by simp
    from "1.IH" [OF True inb refl refl] "1.prems"
    show ?thesis using True inb by (simp add: mix_loop.simps [of i P Q Out] Let_def)
  qed
qed

subsection \<open>The mixed output\<close>

lemma mix_loop_range:
  assumes "mix_loop 0 P Q Out = Inr Out'" and "i < length Out'"
  shows "- 1 \<le> Out' ! i \<and> Out' ! i \<le> 1"
proof -
  from mix_loop_Inr [OF assms(1)] assms(2)
  have "Out' ! i = Clamp ((P ! i * (6 / 10) + Q ! i * (4 / 10)) * (9 / 10)) (- 1) 1"
    by simp
  then show ?thesis using Clamp_bounds [of "- 1" 1] by simp
qed

text \<open>
  C1. Whenever \<open>Update\<close> returns, every sample of the output array lies in \<open>[-1, 1]\<close>;
  and on an initialized manager (every constructed one) every sample is the blend of the
  physics-driven stream \<open>P\<close> and the procedurally-driven stream \<open>Q\<close> with the fixed
  weights 0.6 and 0.4, scaled by 0.9 and clipped to \<open>[-1, 1]\<close>.
\<close>

theorem update_output_is_clipped_blend:
  assumes "Update env DeltaTime OutAudioBuffer st = Inr (n, Out, st')"
  shows "(\<forall>i < length Out. - 1 \<le> Out ! i \<and> Out ! i \<le> 1)
    \<and> (bInitialized (fst st) \<longrightarrow>
        (\<exists>P s h Q s'.
           PhysicsStage env DeltaTime st = Inr (P, s, h)
           \<and> ProceduralStage env s = Inr (Q, s')
           \<and> length Out = nat (int32 (BufferSize s' * 2))
           \<and> (\<forall>i < length Out. i < length P \<and> i < length Q
                \<and> Out ! i = Clamp ((P ! i * (6 / 10) + Q ! i * (4 / 10)) * (9 / 10)) (- 1) 1)))"
proof (cases "bInitialized (fst st)")
  case False
  with assms obtain B where "SetNum (int32 (BufferSize (fst st) * 2)) OutAudioBuffer = Inr B"
    and "Out = zero_loop 0 B"
    by (auto simp: Update_def split: sum.splits)
  then have "Out = replicate (length B) 0" by (simp add: zero_loop_0)
  with False show ?thesis by simp
next
  case True
  with assms obtain P s h Q s' B where
    p: "PhysicsStage env DeltaTime st = Inr (P, s, h)" and
    q: "ProceduralStage env s = Inr (Q, s')" and
    b: "SetNum (int32 (BufferSize s' * 2)) OutAudioBuffer = Inr B" and
    m: "mix_loop 0 P Q B = Inr Out"
    by (auto simp: Update_def split: sum.splits)
  from mix_loop_Inr [OF m] SetNum_length [OF b]
  have len: "length Out = nat (int32 (BufferSize s' * 2))"
    and samples: "\<forall>i < length Out. i < length P \<and> i < length Q
        \<and> Out ! i = Clamp ((P ! i * (6 / 10) + Q ! i * (4 / 10)) * (9 / 10)) (- 1) 1"
    by simp_all
  have "\<forall>i < length Out. - 1 \<le> Out ! i \<and> Out ! i \<le> 1"
    using mix_loop_range [OF m] by blast
  with p q len samples show ?thesis by blast
qed

theorem update_output_is_clipped_blend_witness:
  "bInitialized (fst (FSandboxManager_new (example_collaborators [2, - 2, 1 / 2, 0] (1 / 2)) 48000 2,
      Map.empty :: heap))
   \<and> Update (example_collaborators [2, - 2, 1 / 2, 0] (1 / 2)) (1 / 24) []
       (FSandboxManager_new (example_collaborators [2, - 2, 1 / 2, 0] (1 / 2)) 48000 2, Map.empty)
     = Inr (2, [1, - 1, 81 / 250, 27 / 500],
         (FSandboxManager_new (example_collaborators [2, - 2, 1 / 2, 0] (1 / 2)) 48000 2)
           \<lparr>FrameTimeHistory := [0]\<rparr>, Map.empty)
   \<and> - 1 \<le> [1, - 1, 81 / 250, 27 / 500 :: real] ! 2
   \<and> [1, - 1, 81 / 250, 27 / 500 :: real] ! 2 \<le> 1
   \<and> [1, - 1, 81 / 250, 27 / 500 :: real] ! 2
       = Clamp (([2, - 2, 1 / 2, 0] ! 2 * (6 / 10) + [3 / 20, 3 / 20, 3 / 20, 3 / 20] ! 2 * (4 / 10))
           * (9 / 10)) (- 1) 1"
proof -
  let ?env = "example_collaborators [2, - 2, 1 / 2, 0] (1 / 2)"
  let ?st = "(FSandboxManager_new ?env 48000 2, Map.empty :: heap)"
  have run: "Update ?env (1 / 24) [] ?st
     = Inr (2, [1, - 1, 81 / 250, 27 / 500],
         (FSandboxManager_new ?env 48000 2)\<lparr>FrameTimeHistory := [0]\<rparr>, Map.empty)"
    by (simp add: Update_def PhysicsStage_def ProceduralStage_def ProcessProceduralAudio_def
        ProceduralVoice_def SetNum_def int32_def TrackPerformance_def FSandboxManager_new_def
        Initialize_def example_collaborators_def Let_def mix_loop.simps zero_loop.simps
        Clamp_def SetGravity_def eval_nat_numeral)
  have init: "bInitialized (fst ?st)"
    by (simp add: FSandboxManager_new_def Initialize_def Let_def)
  have q: "ProceduralStage ?env (FSandboxManager_new ?env 48000 2)
     = Inr ([3 / 20, 3 / 20, 3 / 20, 3 / 20], FSandboxManager_new ?env 48000 2)"
    by (simp add: ProceduralStage_def ProcessProceduralAudio_def
        ProceduralVoice_def SetNum_def int32_def FSandboxManager_new_def
        Initialize_def example_collaborators_def Let_def eval_nat_numeral)
  have p: "PhysicsStage ?env (1 / 24) ?st
     = Inr ([2, - 2, 1 / 2, 0], FSandboxManager_new ?env 48000 2, Map.empty)"
    by (simp add: PhysicsStage_def FSandboxManager_new_def
        Initialize_def example_collaborators_def Let_def)
  note t = update_output_is_clipped_blend [OF run]
  from t have "\<forall>i < length [1, - 1, 81 / 250, 27 / 500 :: real].
      - 1 \<le> [1, - 1, 81 / 250, 27 / 500 :: real] ! i
      \<and> [1, - 1, 81 / 250, 27 / 500 :: real] ! i \<le> 1"
    by (rule conjunct1)
  then have bounds: "- 1 \<le> [1, - 1, 81 / 250, 27 / 500 :: real] ! 2
      \<and> [1, - 1, 81 / 250, 27 / 500 :: real] ! 2 \<le> 1"
    by simp
  from t init obtain P s h Q s' where
    p': "PhysicsStage ?env (1 / 24) ?st = Inr (P, s, h)" and
    q': "ProceduralStage ?env s = Inr (Q, s')" and
    all: "\<forall>i < length [1, - 1, 81 / 250, 27 / 500 :: real]. i < length P \<and> i < length Q
        \<and> [1, - 1, 81 / 250, 27 / 500 :: real] ! i
          = Clamp ((P ! i * (6 / 10) + Q ! i * (4 / 10)) * (9 / 10)) (- 1) 1"
    by blast
  from p p' have P: "P = [2, - 2, 1 / 2, 0]" and s: "s = FSandboxManager_new ?env 48000 2"
    by simp_all
  from q q' s have Q: "Q = [3 / 20, 3 / 20, 3 / 20, 3 / 20]"
    by simp
  have "(2::nat) < length [1, - 1, 81 / 250, 27 / 500 :: real]" by simp
  with all have "[1, - 1, 81 / 250, 27 / 500 :: real] ! 2
          = Clamp ((P ! 2 * (6 / 10) + Q ! 2 * (4 / 10)) * (9 / 10)) (- 1) 1"
    by blast
  with bounds P Q have "- 1 \<le> [1, - 1, 81 / 250, 27 / 500 :: real] ! 2
     \<and> [1, - 1, 81 / 250, 27 / 500 :: real] ! 2 \<le> 1
     \<and> [1, - 1, 81 / 250, 27 / 500 :: real] ! 2
       = Clamp (([2, - 2, 1 / 2, 0] ! 2 * (6 / 10) + [3 / 20, 3 / 20, 3 / 20, 3 / 20] ! 2 * (4 / 10))
           * (9 / 10)) (- 1) 1"
    by blast
  with init run show ?thesis by blast
qed

lemma Update_returns:
  assumes "bInitialized (fst st)"
    and "PhysicsStage env DeltaTime st = Inr (P, s, h)"
    and "ProceduralStage env s = Inr (Q, s')"
    and "0 \<le> BufferSize s'" and "BufferSize s' < 1073741824"
    and "nat (BufferSize s' * 2) \<le> length P" and "nat (BufferSize s' * 2) \<le> length Q"
  shows "\<exists>Out. Update env DeltaTime OutAudioBuffer st = Inr (BufferSize s', Out, TrackPerformance s', h)"
proof -
  have i: "int32 (BufferSize s' * 2) = BufferSize s' * 2"
    using assms(4,5) by (simp add: int32_id)
  obtain B where b: "SetNum (BufferSize s' * 2) OutAudioBuffer = Inr B"
    and lb: "length B = nat (BufferSize s' * 2)"
    using SetNum_Inr [of "BufferSize s' * 2" OutAudioBuffer] assms(4) by auto
  obtain Out where "mix_loop 0 P Q B = Inr Out"
    using mix_loop_returns [of B P Q 0] lb assms(6,7) by auto
  with assms(1,2,3) i b show ?thesis
    by (simp add: Update_def)
qed

lemma FSandboxManager_new_initialized: "bInitialized (FSandboxManager_new env InSampleRate InBufferSize)"
  by (simp add: FSandboxManager_new_def Initialize_def Let_def)

subsection \<open>Silence when both streams are disabled\<close>

lemma silent_PhysicsStage:
  assumes "\<not> bUsePhysicsAudio s" and "0 \<le> BufferSize s" and "BufferSize s < 1073741824"
  shows "\<exists>s' h'. PhysicsStage env DeltaTime (s, h)
      = Inr (replicate (nat (BufferSize s * 2)) 0, s', h')
    \<and> BufferSize s' = BufferSize s
    \<and> bUsePhysicsAudio s' = bUsePhysicsAudio s
    \<and> bUseProceduralGeneration s' = bUseProceduralGeneration s
    \<and> bInitialized s' = bInitialized s"
proof -
  have i: "int32 (BufferSize s * 2) = BufferSize s * 2"
    using assms(2,3) by (simp add: int32_id)
  obtain w h' where sim:
    "PhysicsWorld_SimulateStep env (DeltaTime * SimulationSpeed s) (PhysicsWorld s, h) = (w, h')"
    by (cases "PhysicsWorld_SimulateStep env (DeltaTime * SimulationSpeed s) (PhysicsWorld s, h)")
  have "PhysicsStage env DeltaTime (s, h)
      = Inr (replicate (nat (BufferSize s * 2)) 0, s\<lparr>PhysicsWorld := w\<rparr>, h')"
    using assms(1,2) sim i
    by (simp add: PhysicsStage_def Let_def SetNum_Nil zero_loop_0)
  then show ?thesis by simp
qed

lemma silent_ProceduralStage:
  assumes "\<not> bUseProceduralGeneration s" and "0 \<le> BufferSize s" and "BufferSize s < 1073741824"
  shows "ProceduralStage env s = Inr (replicate (nat (BufferSize s * 2)) 0, s)"
proof -
  have i: "int32 (BufferSize s * 2) = BufferSize s * 2"
    using assms(2,3) by (simp add: int32_id)
  show ?thesis
    using assms(1,2) i by (simp add: ProceduralStage_def SetNum_Nil zero_loop_0)
qed

lemma mix_loop_silence:
  assumes "length Out = n"
  shows "mix_loop 0 (replicate n 0) (replicate n 0) Out = Inr (replicate n 0)"
proof -
  obtain Out' where r: "mix_loop 0 (replicate n 0) (replicate n 0) Out = Inr Out'"
    using mix_loop_returns [of Out "replicate n 0" "replicate n 0" 0] assms by auto
  from mix_loop_Inr [OF r] assms have len: "length Out' = n"
    and "\<forall>j < n. Out' ! j
        = Clamp ((replicate n 0 ! j * (6 / 10) + replicate n 0 ! j * (4 / 10)) * (9 / 10)) (- 1) 1"
    by simp_all
  then have "\<forall>j < n. Out' ! j = 0"
    by (simp add: Clamp_def)
  with len have "Out' = replicate n 0"
    by (simp add: list_eq_iff_nth_eq)
  with r show ?thesis by simp
qed

lemma TrackPerformance_fields:
  "BufferSize (TrackPerformance s) = BufferSize s
   \<and> bUsePhysicsAudio (TrackPerformance s) = bUsePhysicsAudio s
   \<and> bUseProceduralGeneration (TrackPerformance s) = bUseProceduralGeneration s
   \<and> bInitialized (TrackPerformance s) = bInitialized s"
  by (simp add: TrackPerformance_def Let_def)

lemma silent_Update:
  assumes "\<not> bUsePhysicsAudio s" and "\<not> bUseProceduralGeneration s"
    and "0 \<le> BufferSize s" and "BufferSize s < 1073741824"
  shows "\<exists>s' h'. Update env DeltaTime OutAudioBuffer (s, h)
      = Inr (BufferSize s, replicate (nat (BufferSize s * 2)) 0, s', h')
    \<and> BufferSize s' = BufferSize s
    \<and> \<not> bUsePhysicsAudio s' \<and> \<not> bUseProceduralGeneration s'"
proof (cases "bInitialized s")
  case False
  have i: "int32 (BufferSize s * 2) = BufferSize s * 2"
    using assms(3,4) by (simp add: int32_id)
  obtain B where b: "SetNum (BufferSize s * 2) OutAudioBuffer = Inr B"
    and lb: "length B = nat (BufferSize s * 2)"
    using SetNum_Inr [of "BufferSize s * 2" OutAudioBuffer] assms(3) by auto
  with False i assms(1,2) show ?thesis
    by (simp add: Update_def zero_loop_0)
next
  case True
  have i: "int32 (BufferSize s * 2) = BufferSize s * 2"
    using assms(3,4) by (simp add: int32_id)
  obtain s1 h1 where p: "PhysicsStage env DeltaTime (s, h)
      = Inr (replicate (nat (BufferSize s * 2)) 0, s1, h1)"
    and f: "BufferSize s1 = BufferSize s" "\<not> bUsePhysicsAudio s1"
      "\<not> bUseProceduralGeneration s1"
    using silent_PhysicsStage [OF assms(1,3,4), of env DeltaTime h] assms(1,2) by auto
  have q: "ProceduralStage env s1 = Inr (replicate (nat (BufferSize s * 2)) 0, s1)"
    using silent_ProceduralStage [of s1 env] f assms(3,4) by simp
  obtain B where b: "SetNum (BufferSize s * 2) OutAudioBuffer = Inr B"
    and lb: "length B = nat (BufferSize s * 2)"
    using SetNum_Inr [of "BufferSize s * 2" OutAudioBuffer] assms(3) by auto
  have m: "mix_loop 0 (replicate (nat (BufferSize s * 2)) 0) (replicate (nat (BufferSize s * 2)) 0) B
      = Inr (replicate (nat (BufferSize s * 2)) 0)"
    using lb by (rule mix_loop_silence)
  have "Update env DeltaTime OutAudioBuffer (s, h)
      = Inr (BufferSize s, replicate (nat (BufferSize s * 2)) 0, TrackPerformance s1, h1)"
    using True p q b m i f by (simp add: Update_def)
  with f show ?thesis by (simp add: TrackPerformance_fields)
qed

lemma silent_Updates:
  assumes "\<not> bUsePhysicsAudio s" and "\<not> bUseProceduralGeneration s"
    and "0 \<le> BufferSize s" and "BufferSize s < 1073741824"
  shows "\<exists>st'. Updates env dts OutAudioBuffer (s, h)
      = Inr (map (\<lambda>DeltaTime. (BufferSize s, replicate (nat (BufferSize s * 2)) 0)) dts, st')"
  using assms
proof (induction dts arbitrary: s h OutAudioBuffer)
  case Nil
  show ?case by simp
next
  case (Cons DeltaTime dts)
  obtain s' h' where u: "Update env DeltaTime OutAudioBuffer (s, h)
      = Inr (BufferSize s, replicate (nat (BufferSize s * 2)) 0, s', h')"
    and f: "BufferSize s' = BufferSize s" "\<not> bUsePhysicsAudio s'"
      "\<not> bUseProceduralGeneration s'"
    using silent_Update [OF Cons.prems, of env DeltaTime OutAudioBuffer h] by auto
  obtain st' where "Updates env dts (replicate (nat (BufferSize s * 2)) 0) (s', h')
      = Inr (map (\<lambda>DeltaTime. (BufferSize s', replicate (nat (BufferSize s' * 2)) 0)) dts, st')"
    using Cons.IH [of s' "replicate (nat (BufferSize s * 2)) 0" h'] f Cons.prems by auto
  with u f show ?case by simp
qed

text \<open>
  C9. On a manager on which \<open>EnablePhysicsAudio(false)\<close> and
  \<open>EnableProceduralGeneration(false)\<close> have been set, with a buffer size \<open>0 \<le> BufferSize\<close>
  whose double fits \<open>int32\<close>, every subsequent \<open>Update\<close> returns \<open>BufferSize\<close> and leaves
  exactly \<open>2 * BufferSize\<close> samples in the output array, all 0.
\<close>

theorem disabled_streams_give_silence:
  assumes "0 \<le> BufferSize s" and "BufferSize s < 1073741824"
  shows "\<exists>st'. Updates env dts OutAudioBuffer
        (EnableProceduralGeneration False (EnablePhysicsAudio False s), h)
      = Inr (map (\<lambda>DeltaTime. (BufferSize s, replicate (nat (2 * BufferSize s)) 0)) dts, st')"
proof -
  let ?s = "EnableProceduralGeneration False (EnablePhysicsAudio False s)"
  have "\<not> bUsePhysicsAudio ?s" "\<not> bUseProceduralGeneration ?s" "BufferSize ?s = BufferSize s"
    by (simp_all add: EnableProceduralGeneration_def EnablePhysicsAudio_def)
  with silent_Updates [of ?s env dts OutAudioBuffer h] assms
  show ?thesis by (simp add: mult.commute)
qed

theorem disabled_streams_give_silence_witness:
  "0 \<le> BufferSize (FSandboxManager_new (example_collaborators [2, - 2, 1 / 2, 0] (1 / 2)) 48000 2)
   \<and> BufferSize (FSandboxManager_new (example_collaborators [2, - 2, 1 / 2, 0] (1 / 2)) 48000 2)
       < 1073741824
   \<and> (\<exists>st'. Updates (example_collaborators [2, - 2, 1 / 2, 0] (1 / 2)) [1 / 24, 1 / 24] [7]
         (EnableProceduralGeneration False (EnablePhysicsAudio False
            (FSandboxManager_new (example_collaborators [2, - 2, 1 / 2, 0] (1 / 2)) 48000 2)),
          Map.empty)
       = Inr ([(2, [0, 0, 0, 0]), (2, [0, 0, 0, 0])], st'))"
proof -
  let ?env = "example_collaborators [2, - 2, 1 / 2, 0] (1 / 2)"
  have b: "BufferSize (FSandboxManager_new ?env 48000 2) = 2"
    by (simp add: FSandboxManager_new_def Initialize_def Let_def)
  then have h: "0 \<le> BufferSize (FSandboxManager_new ?env 48000 2)"
    "BufferSize (FSandboxManager_new ?env 48000 2) < 1073741824"
    by simp_all
  from disabled_streams_give_silence [OF h, of ?env "[1 / 24, 1 / 24]" "[7]" Map.empty] b h
  show ?thesis by (simp add: eval_nat_numeral)
qed

subsection \<open>The initialized flag\<close>

lemma PhysicsStage_bInitialized:
  "PhysicsStage env DeltaTime (s, h) = Inr (P, s', h') \<Longrightarrow> bInitialized s' = bInitialized s"
  by (auto simp: PhysicsStage_def Let_def split: prod.splits if_splits sum.splits)

lemma ProceduralStage_bInitialized:
  "ProceduralStage env s = Inr (Q, s') \<Longrightarrow> bInitialized s' = bInitialized s"
  by (auto simp: ProceduralStage_def ProcessProceduralAudio_def Let_def
      split: prod.splits if_splits sum.splits)

text \<open>Nothing clears \<open>bInitialized\<close>: a constructed manager stays initialized.\<close>

lemma Update_bInitialized:
  assumes "Update env DeltaTime OutAudioBuffer (s, h) = Inr (n, Out, s', h')"
  shows "bInitialized s' = bInitialized s"
proof (cases "bInitialized s")
  case False
  with assms show ?thesis by (auto simp: Update_def split: sum.splits)
next
  case True
  with assms obtain P s1 h1 Q s2 where
    p: "PhysicsStage env DeltaTime (s, h) = Inr (P, s1, h1)" and
    q: "ProceduralStage env s1 = Inr (Q, s2)" and
    r: "s' = TrackPerformance s2"
    by (auto simp: Update_def split: sum.splits)
  from PhysicsStage_bInitialized [OF p] ProceduralStage_bInitialized [OF q] r
  show ?thesis by (simp add: TrackPerformance_fields)
qed

subsection \<open>The procedurally-driven voice\<close>

lemma ProceduralStage_voice:
  assumes "bUseProceduralGeneration s"
    and "Controller_GenerateParameters env (ProceduralController s)
         = ((Frequency, Amplitude, Richness, Duration'), c)"
    and "SetNum (int32 (BufferSize s * 2)) [] = Inr OutBuffer"
    and "Osc = Oscillator_SetAmplitude env (Amplitude * (3 / 10))
                 (Oscillator_SetFrequency env Frequency (Oscillator_new env (SampleRate s)))"
  shows "(Richness < 33 / 100 \<longrightarrow>
            fst (ProceduralVoice env s) = Oscillator_SetWaveform env Sine Osc)
    \<and> (33 / 100 \<le> Richness \<and> Richness < 66 / 100 \<longrightarrow>
            fst (ProceduralVoice env s) = Oscillator_SetWaveform env Triangle Osc)
    \<and> (66 / 100 \<le> Richness \<longrightarrow>
            fst (ProceduralVoice env s) = Oscillator_SetWaveform env Sawtooth Osc)
    \<and> ProceduralStage env s
        = Inr (fst (Oscillator_GenerateSamples env OutBuffer (BufferSize s)
                 (fst (ProceduralVoice env s))),
               s\<lparr>ProceduralController := c\<rparr>)"
proof -
  have v: "ProceduralVoice env s =
      (if Richness < 33 / 100 then Oscillator_SetWaveform env Sine Osc
       else if Richness < 66 / 100 then Oscillator_SetWaveform env Triangle Osc
       else Oscillator_SetWaveform env Sawtooth Osc, c)"
    using assms(2,4) by (simp add: ProceduralVoice_def Let_def)
  have "ProceduralStage env s
        = Inr (fst (Oscillator_GenerateSamples env OutBuffer (BufferSize s)
                 (fst (ProceduralVoice env s))),
               s\<lparr>ProceduralController := c\<rparr>)"
    using assms(1,3) v
    by (simp add: ProceduralStage_def ProcessProceduralAudio_def Let_def split: prod.splits)
  with v show ?thesis by simp
qed

lemma PhysicsStage_fields:
  "PhysicsStage env DeltaTime (s, h) = Inr (P, s', h') \<Longrightarrow>
   ProceduralController s' = ProceduralController s \<and> SampleRate s' = SampleRate s
   \<and> BufferSize s' = BufferSize s
   \<and> bUseProceduralGeneration s' = bUseProceduralGeneration s"
  by (auto simp: PhysicsStage_def Let_def split: prod.splits if_splits sum.splits)

lemma ProceduralStage_enabled_SetNum:
  assumes "bUseProceduralGeneration s" and "ProceduralStage env s = Inr (Q, s')"
  shows "\<exists>Buffer. SetNum (int32 (BufferSize s * 2)) [] = Inr Buffer"
  using assms
  by (cases "SetNum (int32 (BufferSize s * 2)) []")
     (simp_all add: ProceduralStage_def ProcessProceduralAudio_def)

text \<open>
  C8. In every \<open>Update\<close> frame of an initialized manager with procedural generation
  enabled, the controller is asked once for its parameters, and the procedurally-driven
  stream that \<open>Update\<close> mixes into the output is rendered by an oscillator that was given
  the waveform Sine when the returned spectral richness is below 0.33, Triangle when it is
  at least 0.33 and below 0.66, and Sawtooth otherwise.
\<close>

theorem procedural_waveform_chosen_by_richness:
  assumes "bInitialized s" and "bUseProceduralGeneration s"
    and "Update env DeltaTime OutAudioBuffer (s, h) = Inr (n, Out, s', h')"
    and "Controller_GenerateParameters env (ProceduralController s)
         = ((Frequency, Amplitude, Richness, Duration'), c)"
    and "Osc = Oscillator_SetAmplitude env (Amplitude * (3 / 10))
                 (Oscillator_SetFrequency env Frequency (Oscillator_new env (SampleRate s)))"
  shows "\<exists>Voice P s1 h1 Buffer.
      (Richness < 33 / 100 \<longrightarrow> Voice = Oscillator_SetWaveform env Sine Osc)
    \<and> (33 / 100 \<le> Richness \<and> Richness < 66 / 100 \<longrightarrow>
          Voice = Oscillator_SetWaveform env Triangle Osc)
    \<and> (66 / 100 \<le> Richness \<longrightarrow> Voice = Oscillator_SetWaveform env Sawtooth Osc)
    \<and> PhysicsStage env DeltaTime (s, h) = Inr (P, s1, h1)
    \<and> SetNum (int32 (BufferSize s * 2)) [] = Inr Buffer
    \<and> ProceduralController s' = c
    \<and> n = BufferSize s
    \<and> length Out = nat (int32 (BufferSize s * 2))
    \<and> (\<forall>i < length Out.
          Out ! i = Clamp ((P ! i * (6 / 10)
              + fst (Oscillator_GenerateSamples env Buffer (BufferSize s) Voice) ! i * (4 / 10))
              * (9 / 10)) (- 1) 1)"
proof -
  from assms(1,3) obtain P s1 h1 Q s2 B where
    p: "PhysicsStage env DeltaTime (s, h) = Inr (P, s1, h1)" and
    q: "ProceduralStage env s1 = Inr (Q, s2)" and
    b: "SetNum (int32 (BufferSize s2 * 2)) OutAudioBuffer = Inr B" and
    m: "mix_loop 0 P Q B = Inr Out" and
    n: "n = BufferSize s2" and
    s': "s' = TrackPerformance s2"
    by (auto simp: Update_def split: sum.splits)
  note f = PhysicsStage_fields [OF p]
  from f assms(2) have en: "bUseProceduralGeneration s1" by simp
  from ProceduralStage_enabled_SetNum [OF en q] f
  obtain Buffer where buf: "SetNum (int32 (BufferSize s * 2)) [] = Inr Buffer" by auto
  define Voice where "Voice = fst (ProceduralVoice env s1)"
  have gp: "Controller_GenerateParameters env (ProceduralController s1)
         = ((Frequency, Amplitude, Richness, Duration'), c)"
    using assms(4) f by simp
  have buf1: "SetNum (int32 (BufferSize s1 * 2)) [] = Inr Buffer"
    using buf f by simp
  have osc: "Osc = Oscillator_SetAmplitude env (Amplitude * (3 / 10))
                 (Oscillator_SetFrequency env Frequency (Oscillator_new env (SampleRate s1)))"
    using assms(5) f by simp
  note v = ProceduralStage_voice [OF en gp buf1 osc]
  from v have w1: "Richness < 33 / 100 \<longrightarrow> Voice = Oscillator_SetWaveform env Sine Osc"
    and w2: "33 / 100 \<le> Richness \<and> Richness < 66 / 100 \<longrightarrow>
          Voice = Oscillator_SetWaveform env Triangle Osc"
    and w3: "66 / 100 \<le> Richness \<longrightarrow> Voice = Oscillator_SetWaveform env Sawtooth Osc"
    unfolding Voice_def by blast+
  from v have "ProceduralStage env s1
        = Inr (fst (Oscillator_GenerateSamples env Buffer (BufferSize s1) Voice),
               s1\<lparr>ProceduralController := c\<rparr>)"
    unfolding Voice_def by blast
  with q f have Q: "Q = fst (Oscillator_GenerateSamples env Buffer (BufferSize s) Voice)"
    and s2: "s2 = s1\<lparr>ProceduralController := c\<rparr>"
    by simp_all
  from s2 s' have c: "ProceduralController s' = c"
    by (simp add: TrackPerformance_def Let_def)
  from s2 n f have n': "n = BufferSize s" by simp
  from s2 f have bs: "BufferSize s2 = BufferSize s" by simp
  from mix_loop_Inr [OF m] SetNum_length [OF b] bs
  have len: "length Out = nat (int32 (BufferSize s * 2))"
    and samples: "\<forall>i < length Out.
        Out ! i = Clamp ((P ! i * (6 / 10) + Q ! i * (4 / 10)) * (9 / 10)) (- 1) 1"
    by simp_all
  from samples Q have samples': "\<forall>i < length Out.
          Out ! i = Clamp ((P ! i * (6 / 10)
              + fst (Oscillator_GenerateSamples env Buffer (BufferSize s) Voice) ! i * (4 / 10))
              * (9 / 10)) (- 1) 1"
    by simp
  from w1 w2 w3 p buf c n' len samples' show ?thesis by blast
qed

theorem procedural_waveform_chosen_by_richness_witness:
  "bInitialized (FSandboxManager_new ((example_collaborators [2, - 2, 1 / 2, 0] (33 / 100))
        \<lparr>Oscillator_GenerateSamples := (\<lambda>OutBuffer NumSamples (f, a, w).
           (map (\<lambda>x. if w = Sine then 0 else if w = Triangle then a else - a) OutBuffer,
            (f, a, w)))\<rparr>) 48000 2)
   \<and> bUseProceduralGeneration (FSandboxManager_new ((example_collaborators [2, - 2, 1 / 2, 0] (33 / 100))
        \<lparr>Oscillator_GenerateSamples := (\<lambda>OutBuffer NumSamples (f, a, w).
           (map (\<lambda>x. if w = Sine then 0 else if w = Triangle then a else - a) OutBuffer,
            (f, a, w)))\<rparr>) 48000 2)
   \<and> (1 / 5 :: real) < 33 / 100
   \<and> Update ((example_collaborators [2, - 2, 1 / 2, 0] (1 / 5))
        \<lparr>Oscillator_GenerateSamples := (\<lambda>OutBuffer NumSamples (f, a, w).
           (map (\<lambda>x. if w = Sine then 0 else if w = Triangle then a else - a) OutBuffer,
            (f, a, w)))\<rparr>) (1 / 24) []
       (FSandboxManager_new ((example_collaborators [2, - 2, 1 / 2, 0] (1 / 5))
        \<lparr>Oscillator_GenerateSamples := (\<lambda>OutBuffer NumSamples (f, a, w).
           (map (\<lambda>x. if w = Sine then 0 else if w = Triangle then a else - a) OutBuffer,
            (f, a, w)))\<rparr>) 48000 2, Map.empty)
     = Inr (2, [1, - 1, 27 / 100, 0],
         (FSandboxManager_new ((example_collaborators [2, - 2, 1 / 2, 0] (1 / 5))
        \<lparr>Oscillator_GenerateSamples := (\<lambda>OutBuffer NumSamples (f, a, w).
           (map (\<lambda>x. if w = Sine then 0 else if w = Triangle then a else - a) OutBuffer,
            (f, a, w)))\<rparr>) 48000 2)\<lparr>FrameTimeHistory := [0]\<rparr>, Map.empty)
   \<and> (33 / 100 :: real) \<le> 33 / 100 \<and> (33 / 100 :: real) < 66 / 100
   \<and> Update ((example_collaborators [2, - 2, 1 / 2, 0] (33 / 100))
        \<lparr>Oscillator_GenerateSamples := (\<lambda>OutBuffer NumSamples (f, a, w).
           (map (\<lambda>x. if w = Sine then 0 else if w = Triangle then a else - a) OutBuffer,
            (f, a, w)))\<rparr>) (1 / 24) []
       (FSandboxManager_new ((example_collaborators [2, - 2, 1 / 2, 0] (33 / 100))
        \<lparr>Oscillator_GenerateSamples := (\<lambda>OutBuffer NumSamples (f, a, w).
           (map (\<lambda>x. if w = Sine then 0 else if w = Triangle then a else - a) OutBuffer,
            (f, a, w)))\<rparr>) 48000 2, Map.empty)
     = Inr (2, [1, - 1, 81 / 250, 27 / 500],
         (FSandboxManager_new ((example_collaborators [2, - 2, 1 / 2, 0] (33 / 100))
        \<lparr>Oscillator_GenerateSamples := (\<lambda>OutBuffer NumSamples (f, a, w).
           (map (\<lambda>x. if w = Sine then 0 else if w = Triangle then a else - a) OutBuffer,
            (f, a, w)))\<rparr>) 48000 2)\<lparr>FrameTimeHistory := [0]\<rparr>, Map.empty)
   \<and> (66 / 100 :: real) \<le> 66 / 100
   \<and> Update ((example_collaborators [2, - 2, 1 / 2, 0] (66 / 100))
        \<lparr>Oscillator_GenerateSamples := (\<lambda>OutBuffer NumSamples (f, a, w).
           (map (\<lambda>x. if w = Sine then 0 else if w = Triangle then a else - a) OutBuffer,
            (f, a, w)))\<rparr>) (1 / 24) []
       (FSandboxManager_new ((example_collaborators [2, - 2, 1 / 2, 0] (66 / 100))
        \<lparr>Oscillator_GenerateSamples := (\<lambda>OutBuffer NumSamples (f, a, w).
           (map (\<lambda>x. if w = Sine then 0 else if w = Triangle then a else - a) OutBuffer,
            (f, a, w)))\<rparr>) 48000 2, Map.empty)
     = Inr (2, [1, - 1, 27 / 125, - (27 / 500)],
         (FSandboxManager_new ((example_collaborators [2, - 2, 1 / 2, 0] (66 / 100))
        \<lparr>Oscillator_GenerateSamples := (\<lambda>OutBuffer NumSamples (f, a, w).
           (map (\<lambda>x. if w = Sine then 0 else if w = Triangle then a else - a) OutBuffer,
            (f, a, w)))\<rparr>) 48000 2)\<lparr>FrameTimeHistory := [0]\<rparr>, Map.empty)
   \<and> [1, - 1, 81 / 250, 27 / 500 :: real] ! 3
       = Clamp (([2, - 2, 1 / 2, 0] ! 3 * (6 / 10)
           + fst (Oscillator_GenerateSamples ((example_collaborators [2, - 2, 1 / 2, 0] (33 / 100))
        \<lparr>Oscillator_GenerateSamples := (\<lambda>OutBuffer NumSamples (f, a, w).
           (map (\<lambda>x. if w = Sine then 0 else if w = Triangle then a else - a) OutBuffer,
            (f, a, w)))\<rparr>) [0, 0, 0, 0] 2
               (Oscillator_SetWaveform ((example_collaborators [2, - 2, 1 / 2, 0] (33 / 100))
        \<lparr>Oscillator_GenerateSamples := (\<lambda>OutBuffer NumSamples (f, a, w).
           (map (\<lambda>x. if w = Sine then 0 else if w = Triangle then a else - a) OutBuffer,
            (f, a, w)))\<rparr>) Triangle (440, 3 / 20, Sine))) ! 3 * (4 / 10))
           * (9 / 10)) (- 1) 1"
proof -
  let ?env = "\<lambda>r. (example_collaborators [2, - 2, 1 / 2, 0] r)
        \<lparr>Oscillator_GenerateSamples := (\<lambda>OutBuffer NumSamples (f, a, w).
           (map (\<lambda>x. if w = Sine then 0 else if w = Triangle then a else - a) OutBuffer,
            (f, a, w)))\<rparr>"
  let ?s = "\<lambda>r. FSandboxManager_new (?env r) 48000 2"
  have init: "bInitialized (?s r)" and en: "bUseProceduralGeneration (?s r)" for r
    by (simp_all add: FSandboxManager_new_def Initialize_def Let_def)
  have gp: "Controller_GenerateParameters (?env r) (ProceduralController (?s r))
      = ((440, 1 / 2, r, 1 / 5), ())" for r
    by (simp add: example_collaborators_def)
  have osc: "(440, 3 / 20, Sine) = Oscillator_SetAmplitude (?env r) (1 / 2 * (3 / 10))
      (Oscillator_SetFrequency (?env r) 440 (Oscillator_new (?env r) (SampleRate (?s r))))" for r
    by (simp add: example_collaborators_def)
  have u1: "Update (?env (1 / 5)) (1 / 24) [] (?s (1 / 5), Map.empty)
      = Inr (2, [1, - 1, 27 / 100, 0], (?s (1 / 5))\<lparr>FrameTimeHistory := [0]\<rparr>, Map.empty)"
    by (simp add: Update_def PhysicsStage_def ProceduralStage_def ProcessProceduralAudio_def
        ProceduralVoice_def SetNum_def int32_def TrackPerformance_def FSandboxManager_new_def
        Initialize_def example_collaborators_def Let_def mix_loop.simps zero_loop.simps
        Clamp_def SetGravity_def eval_nat_numeral)
  have u2: "Update (?env (33 / 100)) (1 / 24) [] (?s (33 / 100), Map.empty)
      = Inr (2, [1, - 1, 81 / 250, 27 / 500],
          (?s (33 / 100))\<lparr>FrameTimeHistory := [0]\<rparr>, Map.empty)"
    by (simp add: Update_def PhysicsStage_def ProceduralStage_def ProcessProceduralAudio_def
        ProceduralVoice_def SetNum_def int32_def TrackPerformance_def FSandboxManager_new_def
        Initialize_def example_collaborators_def Let_def mix_loop.simps zero_loop.simps
        Clamp_def SetGravity_def eval_nat_numeral)
  have u3: "Update (?env (66 / 100)) (1 / 24) [] (?s (66 / 100), Map.empty)
      = Inr (2, [1, - 1, 27 / 125, - (27 / 500)],
          (?s (66 / 100))\<lparr>FrameTimeHistory := [0]\<rparr>, Map.empty)"
    by (simp add: Update_def PhysicsStage_def ProceduralStage_def ProcessProceduralAudio_def
        ProceduralVoice_def SetNum_def int32_def TrackPerformance_def FSandboxManager_new_def
        Initialize_def example_collaborators_def Let_def mix_loop.simps zero_loop.simps
        Clamp_def SetGravity_def eval_nat_numeral)
  have p: "PhysicsStage (?env (33 / 100)) (1 / 24) (?s (33 / 100), Map.empty)
     = Inr ([2, - 2, 1 / 2, 0], ?s (33 / 100), Map.empty)"
    by (simp add: PhysicsStage_def FSandboxManager_new_def
        Initialize_def example_collaborators_def Let_def)
  have sn: "SetNum (int32 (BufferSize (?s (33 / 100)) * 2)) [] = Inr [0, 0, 0, 0]"
    by (simp add: FSandboxManager_new_def Initialize_def Let_def SetNum_def int32_def
        eval_nat_numeral)
  from procedural_waveform_chosen_by_richness [OF init en u2 gp osc]
  obtain Voice P s1 h1 Buffer where
    w: "33 / 100 \<le> (33 / 100 :: real) \<and> (33 / 100 :: real) < 66 / 100 \<longrightarrow>
          Voice = Oscillator_SetWaveform (?env (33 / 100)) Triangle (440, 3 / 20, Sine)" and
    p': "PhysicsStage (?env (33 / 100)) (1 / 24) (?s (33 / 100), Map.empty) = Inr (P, s1, h1)" and
    sn': "SetNum (int32 (BufferSize (?s (33 / 100)) * 2)) [] = Inr Buffer" and
    all: "\<forall>i < length [1, - 1, 81 / 250, 27 / 500 :: real].
          [1, - 1, 81 / 250, 27 / 500 :: real] ! i = Clamp ((P ! i * (6 / 10)
              + fst (Oscillator_GenerateSamples (?env (33 / 100)) Buffer
                  (BufferSize (?s (33 / 100))) Voice) ! i * (4 / 10))
              * (9 / 10)) (- 1) 1"
    by blast
  from w have V: "Voice = Oscillator_SetWaveform (?env (33 / 100)) Triangle (440, 3 / 20, Sine)"
    by simp
  from p p' have P: "P = [2, - 2, 1 / 2, 0]" by simp
  from sn sn' have B: "Buffer = [0, 0, 0, 0]" by simp
  have bs: "BufferSize (?s (33 / 100)) = 2"
    by (simp add: FSandboxManager_new_def Initialize_def Let_def)
  have "(3::nat) < length [1, - 1, 81 / 250, 27 / 500 :: real]" by simp
  with all have "[1, - 1, 81 / 250, 27 / 500 :: real] ! 3 = Clamp ((P ! 3 * (6 / 10)
              + fst (Oscillator_GenerateSamples (?env (33 / 100)) Buffer
                  (BufferSize (?s (33 / 100))) Voice) ! 3 * (4 / 10))
              * (9 / 10)) (- 1) 1"
    by blast
  then have d: "[1, - 1, 81 / 250, 27 / 500 :: real] ! 3
       = Clamp (([2, - 2, 1 / 2, 0] ! 3 * (6 / 10)
           + fst (Oscillator_GenerateSamples (?env (33 / 100)) [0, 0, 0, 0] 2
               (Oscillator_SetWaveform (?env (33 / 100)) Triangle (440, 3 / 20, Sine))) ! 3 * (4 / 10))
           * (9 / 10)) (- 1) 1"
    unfolding V P B bs .
  have r: "(1 / 5 :: real) < 33 / 100" "(33 / 100 :: real) \<le> 33 / 100"
    "(33 / 100 :: real) < 66 / 100" "(66 / 100 :: real) \<le> 66 / 100"
    by simp_all
  from init [of "33 / 100"] en [of "33 / 100"] r u1 u2 u3 d show ?thesis
    by (intro conjI)
qed

section \<open>The resonant surface sandbox\<close>

text \<open>
  C10. \<open>ExciteResonator\<close> with an index outside \<open>[0, number of resonators)\<close> returns
  without an error and leaves the sandbox, its resonators and every physics object of the
  store as they were.
\<close>

theorem excite_resonator_out_of_range_is_noop:
  assumes "Index < 0 \<or> int (length (Resonators s)) \<le> Index"
  shows "ExciteResonator env Index Energy (s, h) = Inr (s, h)"
  using assms by (auto simp: ExciteResonator_def)

theorem excite_resonator_out_of_range_is_noop_witness:
  "((2::int) < 0 \<or> int (length (Resonators
        ((FResonantSurfaceSandbox_new (example_collaborators [] (1 / 2)) 48000)
           \<lparr>Resonators := [0, 1]\<rparr>))) \<le> 2)
   \<and> ExciteResonator (example_collaborators [] (1 / 2)) 2 (4 / 5)
        ((FResonantSurfaceSandbox_new (example_collaborators [] (1 / 2)) 48000)
           \<lparr>Resonators := [0, 1]\<rparr>,
         [0 \<mapsto> \<lparr>FPhysicsObject.Position = FVector3_new 0 2 0, Velocity = FVector3_new 0 0 0,
                Acceleration = FVector3_new 0 0 0, TotalForce = FVector3_new 0 0 0,
                Mass = 1, Damping = 1, Radius = 3 / 10\<rparr>,
          1 \<mapsto> \<lparr>FPhysicsObject.Position = FVector3_new 1 2 0, Velocity = FVector3_new 0 0 0,
                Acceleration = FVector3_new 0 0 0, TotalForce = FVector3_new 0 0 0,
                Mass = 1, Damping = 1, Radius = 3 / 10\<rparr>])
       = Inr ((FResonantSurfaceSandbox_new (example_collaborators [] (1 / 2)) 48000)
           \<lparr>Resonators := [0, 1]\<rparr>,
         [0 \<mapsto> \<lparr>FPhysicsObject.Position = FVector3_new 0 2 0, Velocity = FVector3_new 0 0 0,
                Acceleration = FVector3_new 0 0 0, TotalForce = FVector3_new 0 0 0,
                Mass = 1, Damping = 1, Radius = 3 / 10\<rparr>,
          1 \<mapsto> \<lparr>FPhysicsObject.Position = FVector3_new 1 2 0, Velocity = FVector3_new 0 0 0,
                Acceleration = FVector3_new 0 0 0, TotalForce = FVector3_new 0 0 0,
                Mass = 1, Damping = 1, Radius = 3 / 10\<rparr>])"
proof -
  let ?s = "(FResonantSurfaceSandbox_new (example_collaborators [] (1 / 2)) 48000)
           \<lparr>Resonators := [0, 1]\<rparr>"
  have h: "(2::int) < 0 \<or> int (length (Resonators ?s)) \<le> 2"
    by simp
  from excite_resonator_out_of_range_is_noop [OF h] h show ?thesis
    by blast
qed

text \<open>With an index in range the addressed resonator receives the impulse.\<close>

lemma excite_resonator_in_range_example:
  "map_sum id (\<lambda>(s, h). map_option Velocity (h 1))
     (ExciteResonator (example_collaborators [] (1 / 2)) 1 (4 / 5)
        ((FResonantSurfaceSandbox_new (example_collaborators [] (1 / 2)) 48000)
           \<lparr>Resonators := [0, 1]\<rparr>,
         [0 \<mapsto> \<lparr>FPhysicsObject.Position = FVector3_new 0 2 0, Velocity = FVector3_new 0 0 0,
                Acceleration = FVector3_new 0 0 0, TotalForce = FVector3_new 0 0 0,
                Mass = 1, Damping = 1, Radius = 3 / 10\<rparr>,
          1 \<mapsto> \<lparr>FPhysicsObject.Position = FVector3_new 1 2 0, Velocity = FVector3_new 0 0 0,
                Acceleration = FVector3_new 0 0 0, TotalForce = FVector3_new 0 0 0,
                Mass = 1, Damping = 1, Radius = 3 / 10\<rparr>]))
   = Inr (Some (FVector3_new 0 (- 8) 0))"
  by (simp add: ExciteResonator_def example_collaborators_def FVector3_new_def)

section \<open>The procedural controller\<close>

lemma MapRange_bounds:
  assumes "0 \<le> v" and "v \<le> 1" and "lo \<le> hi"
  shows "lo \<le> MapRange v lo hi \<and> MapRange v lo hi \<le> hi"
proof -
  have "0 \<le> v * (hi - lo)"
    using assms by simp
  moreover have "v * (hi - lo) \<le> 1 * (hi - lo)"
    using assms by (intro mult_right_mono) simp_all
  ultimately show ?thesis by (simp add: MapRange_def)
qed

lemma GenerateParameters_ranges:
  "FreqMin (snd (GenerateParameters GetNextValue Default c)) = FreqMin c
   \<and> FreqMax (snd (GenerateParameters GetNextValue Default c)) = FreqMax c"
  by (simp add: GenerateParameters_def Let_def split: prod.splits)

lemma GenerateParameters_assigned:
  "FrequencyGen c \<noteq> None \<Longrightarrow>
   FrequencyGen (snd (GenerateParameters GetNextValue Default c)) \<noteq> None"
  by (auto simp: GenerateParameters_def pull_slot_def Let_def split: prod.splits option.splits)

lemma GenerateParameters_frequency:
  "FrequencyGen c = Some g \<Longrightarrow>
   fst (fst (GenerateParameters GetNextValue Default c))
     = MapRange (fst (GetNextValue g)) (FreqMin c) (FreqMax c)"
  by (simp add: GenerateParameters_def pull_slot_def Let_def split: prod.splits)

lemma GenerateParametersN_frequency_range:
  assumes "\<forall>g. 0 \<le> fst (GetNextValue g) \<and> fst (GetNextValue g) \<le> 1"
    and "FrequencyGen c \<noteq> None" and "FreqMin c = lo" and "FreqMax c = hi" and "lo \<le> hi"
  shows "\<forall>p \<in> set (fst (GenerateParametersN GetNextValue Default n c)). lo \<le> fst p \<and> fst p \<le> hi"
  using assms(2,3,4)
proof (induction n arbitrary: c)
  case 0
  show ?case by simp
next
  case (Suc n)
  let ?r = "GenerateParameters GetNextValue Default c"
  from Suc.prems obtain g where g: "FrequencyGen c = Some g" by auto
  have f: "lo \<le> fst (fst ?r) \<and> fst (fst ?r) \<le> hi"
    using GenerateParameters_frequency [OF g, of GetNextValue Default] assms(1,5) Suc.prems
      MapRange_bounds [of "fst (GetNextValue g)" lo hi]
    by simp
  have ih: "\<forall>p \<in> set (fst (GenerateParametersN GetNextValue Default n (snd ?r))).
      lo \<le> fst p \<and> fst p \<le> hi"
    using Suc.IH [of "snd ?r"] Suc.prems GenerateParameters_ranges [of GetNextValue Default c]
      GenerateParameters_assigned [of c GetNextValue Default]
    by simp
  show ?case
    using f ih by (simp add: Let_def split: prod.splits) force
qed

lemma GenerateParameters_slots:
  "fst (GenerateParameters GetNextValue Default c)
     = (MapRange (fst (pull_slot GetNextValue Default (FrequencyGen c))) (FreqMin c) (FreqMax c),
        MapRange (fst (pull_slot GetNextValue Default (AmplitudeGen c))) (AmpMin c) (AmpMax c),
        MapRange (fst (pull_slot GetNextValue Default (SpectralGen c))) 0 1,
        MapRange (fst (pull_slot GetNextValue Default (DurationGen c))) (DurMin c) (DurMax c))
   \<and> FrequencyGen (snd (GenerateParameters GetNextValue Default c))
       = snd (pull_slot GetNextValue Default (FrequencyGen c))
   \<and> AmplitudeGen (snd (GenerateParameters GetNextValue Default c))
       = snd (pull_slot GetNextValue Default (AmplitudeGen c))
   \<and> SpectralGen (snd (GenerateParameters GetNextValue Default c))
       = snd (pull_slot GetNextValue Default (SpectralGen c))
   \<and> DurationGen (snd (GenerateParameters GetNextValue Default c))
       = snd (pull_slot GetNextValue Default (DurationGen c))"
  by (simp add: GenerateParameters_def Let_def split: prod.splits)

text \<open>
  C7. \<open>GenerateParameters\<close> calls \<open>GetNextValue\<close> once on the generator of each assigned
  slot, which is left in its next state, and takes the fixed default for a slot without a
  generator; the frequency, amplitude and duration are these values mapped linearly into
  the slot's range, \<open>min + value * (max - min)\<close>, and the spectral richness is the value
  itself (range [0,1]). After \<open>SetFrequencyRange(100, 1000)\<close>, with any generator whose
  values lie in [0,1] assigned to the frequency slot, the frequency of every subsequent
  call lies in [100, 1000].
\<close>

theorem generate_parameters_pulls_and_maps_into_range:
  "(FrequencyGen c = Some g \<longrightarrow>
      fst (fst (GenerateParameters GetNextValue Default c))
        = FreqMin c + fst (GetNextValue g) * (FreqMax c - FreqMin c)
      \<and> FrequencyGen (snd (GenerateParameters GetNextValue Default c))
        = Some (snd (GetNextValue g)))
   \<and> (FrequencyGen c = None \<longrightarrow>
      fst (fst (GenerateParameters GetNextValue Default c))
        = FreqMin c + Default * (FreqMax c - FreqMin c)
      \<and> FrequencyGen (snd (GenerateParameters GetNextValue Default c)) = None)
   \<and> (AmplitudeGen c = Some g \<longrightarrow>
      fst (snd (fst (GenerateParameters GetNextValue Default c)))
        = AmpMin c + fst (GetNextValue g) * (AmpMax c - AmpMin c)
      \<and> AmplitudeGen (snd (GenerateParameters GetNextValue Default c))
        = Some (snd (GetNextValue g)))
   \<and> (AmplitudeGen c = None \<longrightarrow>
      fst (snd (fst (GenerateParameters GetNextValue Default c)))
        = AmpMin c + Default * (AmpMax c - AmpMin c)
      \<and> AmplitudeGen (snd (GenerateParameters GetNextValue Default c)) = None)
   \<and> (SpectralGen c = Some g \<longrightarrow>
      fst (snd (snd (fst (GenerateParameters GetNextValue Default c)))) = fst (GetNextValue g)
      \<and> SpectralGen (snd (GenerateParameters GetNextValue Default c))
        = Some (snd (GetNextValue g)))
   \<and> (SpectralGen c = None \<longrightarrow>
      fst (snd (snd (fst (GenerateParameters GetNextValue Default c)))) = Default
      \<and> SpectralGen (snd (GenerateParameters GetNextValue Default c)) = None)
   \<and> (DurationGen c = Some g \<longrightarrow>
      snd (snd (snd (fst (GenerateParameters GetNextValue Default c))))
        = DurMin c + fst (GetNextValue g) * (DurMax c - DurMin c)
      \<and> DurationGen (snd (GenerateParameters GetNextValue Default c))
        = Some (snd (GetNextValue g)))
   \<and> (DurationGen c = None \<longrightarrow>
      snd (snd (snd (fst (GenerateParameters GetNextValue Default c))))
        = DurMin c + Default * (DurMax c - DurMin c)
      \<and> DurationGen (snd (GenerateParameters GetNextValue Default c)) = None)
   \<and> ((\<forall>g. 0 \<le> fst (GetNextValue g) \<and> fst (GetNextValue g) \<le> 1) \<and> FrequencyGen c \<noteq> None \<longrightarrow>
      (\<forall>p \<in> set (fst (GenerateParametersN GetNextValue Default n (SetFrequencyRange 100 1000 c))).
         100 \<le> fst p \<and> fst p \<le> 1000))"
proof -
  let ?r = "GenerateParameters GetNextValue Default c"
  note sl = GenerateParameters_slots [of GetNextValue Default c]
  have f: "fst (fst ?r)
      = MapRange (fst (pull_slot GetNextValue Default (FrequencyGen c))) (FreqMin c) (FreqMax c)"
    and a: "fst (snd (fst ?r))
      = MapRange (fst (pull_slot GetNextValue Default (AmplitudeGen c))) (AmpMin c) (AmpMax c)"
    and r: "fst (snd (snd (fst ?r)))
      = MapRange (fst (pull_slot GetNextValue Default (SpectralGen c))) 0 1"
    and d: "snd (snd (snd (fst ?r)))
      = MapRange (fst (pull_slot GetNextValue Default (DurationGen c))) (DurMin c) (DurMax c)"
    using sl by simp_all
  have fg: "FrequencyGen (snd ?r) = snd (pull_slot GetNextValue Default (FrequencyGen c))"
    and ag: "AmplitudeGen (snd ?r) = snd (pull_slot GetNextValue Default (AmplitudeGen c))"
    and rg: "SpectralGen (snd ?r) = snd (pull_slot GetNextValue Default (SpectralGen c))"
    and dg: "DurationGen (snd ?r) = snd (pull_slot GetNextValue Default (DurationGen c))"
    using sl by blast+
  have 1: "FrequencyGen c = Some g \<longrightarrow>
      fst (fst ?r) = FreqMin c + fst (GetNextValue g) * (FreqMax c - FreqMin c)
      \<and> FrequencyGen (snd ?r) = Some (snd (GetNextValue g))"
    by (simp add: f fg pull_slot_def MapRange_def)
  have 2: "FrequencyGen c = None \<longrightarrow>
      fst (fst ?r) = FreqMin c + Default * (FreqMax c - FreqMin c)
      \<and> FrequencyGen (snd ?r) = None"
    by (simp add: f fg pull_slot_def MapRange_def)
  have 3: "AmplitudeGen c = Some g \<longrightarrow>
      fst (snd (fst ?r)) = AmpMin c + fst (GetNextValue g) * (AmpMax c - AmpMin c)
      \<and> AmplitudeGen (snd ?r) = Some (snd (GetNextValue g))"
    by (simp add: a ag pull_slot_def MapRange_def)
  have 4: "AmplitudeGen c = None \<longrightarrow>
      fst (snd (fst ?r)) = AmpMin c + Default * (AmpMax c - AmpMin c)
      \<and> AmplitudeGen (snd ?r) = None"
    by (simp add: a ag pull_slot_def MapRange_def)
  have 5: "SpectralGen c = Some g \<longrightarrow>
      fst (snd (snd (fst ?r))) = fst (GetNextValue g)
      \<and> SpectralGen (snd ?r) = Some (snd (GetNextValue g))"
    by (simp add: r rg pull_slot_def MapRange_def)
  have 6: "SpectralGen c = None \<longrightarrow>
      fst (snd (snd (fst ?r))) = Default \<and> SpectralGen (snd ?r) = None"
    by (simp add: r rg pull_slot_def MapRange_def)
  have 7: "DurationGen c = Some g \<longrightarrow>
      snd (snd (snd (fst ?r))) = DurMin c + fst (GetNextValue g) * (DurMax c - DurMin c)
      \<and> DurationGen (snd ?r) = Some (snd (GetNextValue g))"
    by (simp add: d dg pull_slot_def MapRange_def)
  have 8: "DurationGen c = None \<longrightarrow>
      snd (snd (snd (fst ?r))) = DurMin c + Default * (DurMax c - DurMin c)
      \<and> DurationGen (snd ?r) = None"
    by (simp add: d dg pull_slot_def MapRange_def)
  have 9: "(\<forall>g. 0 \<le> fst (GetNextValue g) \<and> fst (GetNextValue g) \<le> 1) \<and> FrequencyGen c \<noteq> None \<longrightarrow>
      (\<forall>p \<in> set (fst (GenerateParametersN GetNextValue Default n (SetFrequencyRange 100 1000 c))).
         100 \<le> fst p \<and> fst p \<le> 1000)"
  proof
    assume h: "(\<forall>g. 0 \<le> fst (GetNextValue g) \<and> fst (GetNextValue g) \<le> 1) \<and> FrequencyGen c \<noteq> None"
    show "\<forall>p \<in> set (fst (GenerateParametersN GetNextValue Default n (SetFrequencyRange 100 1000 c))).
         100 \<le> fst p \<and> fst p \<le> 1000"
    proof (rule GenerateParametersN_frequency_range)
      show "\<forall>g. 0 \<le> fst (GetNextValue g) \<and> fst (GetNextValue g) \<le> 1" using h by blast
      show "FrequencyGen (SetFrequencyRange 100 1000 c) \<noteq> None"
        using h by (simp add: SetFrequencyRange_def)
      show "FreqMin (SetFrequencyRange 100 1000 c) = 100" by (simp add: SetFrequencyRange_def)
      show "FreqMax (SetFrequencyRange 100 1000 c) = 1000" by (simp add: SetFrequencyRange_def)
      show "(100::real) \<le> 1000" by simp
    qed
  qed
  from 1 2 3 4 5 6 7 8 9 show ?thesis by (intro conjI)
qed

theorem generate_parameters_pulls_and_maps_into_range_witness:
  "(\<forall>g :: nat. 0 \<le> fst (real (g mod 5) / 4, Suc g) \<and> fst (real (g mod 5) / 4, Suc g) \<le> 1)
   \<and> FrequencyGen \<lparr>FrequencyGen = Some (3::nat), AmplitudeGen = None, SpectralGen = Some 2,
        DurationGen = None, FreqMin = 20, FreqMax = 20000, AmpMin = 1 / 10, AmpMax = 4 / 5,
        DurMin = 1 / 10, DurMax = 1\<rparr> = Some 3
   \<and> list_all (\<lambda>p. 100 \<le> fst p \<and> fst p \<le> 1000)
        (fst (GenerateParametersN (\<lambda>g. (real (g mod 5) / 4, Suc g)) (1 / 2) (Suc (Suc (Suc 0)))
           (SetFrequencyRange 100 1000
              \<lparr>FrequencyGen = Some (3::nat), AmplitudeGen = None, SpectralGen = Some 2,
               DurationGen = None, FreqMin = 20, FreqMax = 20000, AmpMin = 1 / 10,
               AmpMax = 4 / 5, DurMin = 1 / 10, DurMax = 1\<rparr>)))
   \<and> map fst (fst (GenerateParametersN (\<lambda>g. (real (g mod 5) / 4, Suc g)) (1 / 2) (Suc (Suc (Suc 0)))
           (SetFrequencyRange 100 1000
              \<lparr>FrequencyGen = Some (3::nat), AmplitudeGen = None, SpectralGen = Some 2,
               DurationGen = None, FreqMin = 20, FreqMax = 20000, AmpMin = 1 / 10,
               AmpMax = 4 / 5, DurMin = 1 / 10, DurMax = 1\<rparr>)))
       = [775, 1000, 100]
   \<and> GenerateParameters (\<lambda>g. (real (g mod 5) / 4, Suc g)) (1 / 2)
        \<lparr>FrequencyGen = Some (3::nat), AmplitudeGen = None, SpectralGen = Some 2,
         DurationGen = None, FreqMin = 100, FreqMax = 1000, AmpMin = 1 / 10, AmpMax = 4 / 5,
         DurMin = 1 / 10, DurMax = 1\<rparr>
       = ((775, 9 / 20, 1 / 2, 11 / 20),
          \<lparr>FrequencyGen = Some 4, AmplitudeGen = None, SpectralGen = Some 3,
           DurationGen = None, FreqMin = 100, FreqMax = 1000, AmpMin = 1 / 10, AmpMax = 4 / 5,
           DurMin = 1 / 10, DurMax = 1\<rparr>)"
proof -
  let ?gen = "\<lambda>g :: nat. (real (g mod 5) / 4, Suc g)"
  let ?c = "\<lparr>FrequencyGen = Some (3::nat), AmplitudeGen = None, SpectralGen = Some 2,
        DurationGen = None, FreqMin = 20, FreqMax = 20000, AmpMin = 1 / 10, AmpMax = 4 / 5,
        DurMin = 1 / 10, DurMax = 1\<rparr>"
  have contract: "\<forall>g :: nat. 0 \<le> fst (?gen g) \<and> fst (?gen g) \<le> 1"
  proof
    fix g :: nat
    have "g mod 5 < 5" by simp
    then have "real (g mod 5) \<le> 4" by linarith
    then show "0 \<le> fst (?gen g) \<and> fst (?gen g) \<le> 1" by simp
  qed
  have assigned: "FrequencyGen ?c \<noteq> None" by simp
  note t = generate_parameters_pulls_and_maps_into_range [of ?c 3 ?gen "1 / 2" "Suc (Suc (Suc 0))"]
  from t contract assigned
  have "\<forall>p \<in> set (fst (GenerateParametersN ?gen (1 / 2) (Suc (Suc (Suc 0))) (SetFrequencyRange 100 1000 ?c))).
      100 \<le> fst p \<and> fst p \<le> 1000"
    by blast
  then have 1: "list_all (\<lambda>p. 100 \<le> fst p \<and> fst p \<le> 1000)
      (fst (GenerateParametersN ?gen (1 / 2) (Suc (Suc (Suc 0))) (SetFrequencyRange 100 1000 ?c)))"
    by (simp only: list_all_iff)
  have step: "GenerateParameters ?gen (1 / 2)
        \<lparr>FrequencyGen = Some k, AmplitudeGen = None, SpectralGen = Some m,
         DurationGen = None, FreqMin = 100, FreqMax = 1000, AmpMin = 1 / 10, AmpMax = 4 / 5,
         DurMin = 1 / 10, DurMax = 1\<rparr>
       = ((100 + real (k mod 5) / 4 * 900, 9 / 20, real (m mod 5) / 4, 11 / 20),
          \<lparr>FrequencyGen = Some (Suc k), AmplitudeGen = None, SpectralGen = Some (Suc m),
           DurationGen = None, FreqMin = 100, FreqMax = 1000, AmpMin = 1 / 10, AmpMax = 4 / 5,
           DurMin = 1 / 10, DurMax = 1\<rparr>)" for k m
    by (simp add: GenerateParameters_def pull_slot_def MapRange_def Let_def)
  have set: "SetFrequencyRange 100 1000 ?c
      = \<lparr>FrequencyGen = Some 3, AmplitudeGen = None, SpectralGen = Some 2,
         DurationGen = None, FreqMin = 100, FreqMax = 1000, AmpMin = 1 / 10, AmpMax = 4 / 5,
         DurMin = 1 / 10, DurMax = 1\<rparr>"
    by (simp add: SetFrequencyRange_def)
  have a3: "GenerateParametersN ?gen (1 / 2) (Suc 0)
        \<lparr>FrequencyGen = Some 5, AmplitudeGen = None, SpectralGen = Some 4,
         DurationGen = None, FreqMin = 100, FreqMax = 1000, AmpMin = 1 / 10, AmpMax = 4 / 5,
         DurMin = 1 / 10, DurMax = 1\<rparr>
      = ([(100, 9 / 20, 1, 11 / 20)],
         \<lparr>FrequencyGen = Some 6, AmplitudeGen = None, SpectralGen = Some 5,
         DurationGen = None, FreqMin = 100, FreqMax = 1000, AmpMin = 1 / 10, AmpMax = 4 / 5,
         DurMin = 1 / 10, DurMax = 1\<rparr>)"
    by (simp add: step)
  have a2: "GenerateParametersN ?gen (1 / 2) (Suc (Suc 0))
        \<lparr>FrequencyGen = Some 4, AmplitudeGen = None, SpectralGen = Some 3,
         DurationGen = None, FreqMin = 100, FreqMax = 1000, AmpMin = 1 / 10, AmpMax = 4 / 5,
         DurMin = 1 / 10, DurMax = 1\<rparr>
      = ([(1000, 9 / 20, 3 / 4, 11 / 20), (100, 9 / 20, 1, 11 / 20)],
         \<lparr>FrequencyGen = Some 6, AmplitudeGen = None, SpectralGen = Some 5,
         DurationGen = None, FreqMin = 100, FreqMax = 1000, AmpMin = 1 / 10, AmpMax = 4 / 5,
         DurMin = 1 / 10, DurMax = 1\<rparr>)"
    by (simp add: step a3 del: GenerateParametersN.simps(2) add: GenerateParametersN.simps(2) [of _ _ "Suc 0"])
  have a1: "GenerateParametersN ?gen (1 / 2) (Suc (Suc (Suc 0)))
        \<lparr>FrequencyGen = Some 3, AmplitudeGen = None, SpectralGen = Some 2,
         DurationGen = None, FreqMin = 100, FreqMax = 1000, AmpMin = 1 / 10, AmpMax = 4 / 5,
         DurMin = 1 / 10, DurMax = 1\<rparr>
      = ([(775, 9 / 20, 1 / 2, 11 / 20), (1000, 9 / 20, 3 / 4, 11 / 20), (100, 9 / 20, 1, 11 / 20)],
         \<lparr>FrequencyGen = Some 6, AmplitudeGen = None, SpectralGen = Some 5,
         DurationGen = None, FreqMin = 100, FreqMax = 1000, AmpMin = 1 / 10, AmpMax = 4 / 5,
         DurMin = 1 / 10, DurMax = 1\<rparr>)"
    by (simp add: step a2 del: GenerateParametersN.simps(2) add: GenerateParametersN.simps(2) [of _ _ "Suc (Suc 0)"])
  have 2: "map fst (fst (GenerateParametersN ?gen (1 / 2) (Suc (Suc (Suc 0))) (SetFrequencyRange 100 1000 ?c)))
      = [775, 1000, 100]"
    by (simp only: set a1 fst_conv list.map)
  have 3: "GenerateParameters ?gen (1 / 2)
        \<lparr>FrequencyGen = Some (3::nat), AmplitudeGen = None, SpectralGen = Some 2,
         DurationGen = None, FreqMin = 100, FreqMax = 1000, AmpMin = 1 / 10, AmpMax = 4 / 5,
         DurMin = 1 / 10, DurMax = 1\<rparr>
       = ((775, 9 / 20, 1 / 2, 11 / 20),
          \<lparr>FrequencyGen = Some 4, AmplitudeGen = None, SpectralGen = Some 3,
           DurationGen = None, FreqMin = 100, FreqMax = 1000, AmpMin = 1 / 10, AmpMax = 4 / 5,
           DurMin = 1 / 10, DurMax = 1\<rparr>)"
    unfolding step by simp
  have 0: "FrequencyGen ?c = Some 3" by simp
  from contract 0 1 2 3 show ?thesis by (intro conjI)
qed

end
